theory Spec2Isabelle
  imports Main "HOL-Library.Sublist"
begin

section \<open>JavaScript values\<close>

text \<open>
  The server (\<^verbatim>\<open>server.js\<close>) handles JSON data throughout: CMS items, request bodies,
  the replies of the chat-completion endpoint. The model keeps them as they are at run
  time, as values of one datatype, and spells out the operators of the language that the
  source relies on (\<^verbatim>\<open>||\<close>, \<^verbatim>\<open>&&\<close>, \<^verbatim>\<open>!\<close>, \<^verbatim>\<open>?.\<close>, \<^verbatim>\<open>===\<close>, template
  literals, \<^verbatim>\<open>parseFloat\<close>).

  One idealisation: a \<open>char\<close> stands for one UTF-16 code unit, so the model covers
  strings whose code units are below 256 (\<open>length\<close>, \<open>take\<close> and \<open>drop\<close> then
  count what \<^verbatim>\<open>.length\<close>, \<^verbatim>\<open>substring\<close> and \<^verbatim>\<open>slice\<close> count).

  A number is an IEEE 754 double. \<open>Dec m e\<close> stands for the double nearest to
  \<open>m * 10 ^ e\<close> (ties to the even significand), so a text that underflows denotes
  zero and one that overflows denotes an infinity. The functions that produce numbers
  (\<^verbatim>\<open>parseFloat\<close>, \<^verbatim>\<open>JSON.parse\<close>) return the shortest decimal that denotes the
  double, which is the decimal that \<^verbatim>\<open>Number::toString\<close> prints. The sign of a zero
  is not kept: no operator that the server applies tells \<^verbatim>\<open>-0\<close> from \<^verbatim>\<open>0\<close>.
\<close>

datatype jsnum = NaN | PosInf | NegInf | Dec int int

datatype jsval =
    JUndefined
  | JNull
  | JBool bool
  | JNum jsnum
  | JStr string
  | JArr "jsval list"
  | JObj "(string \<times> jsval) list"

datatype error = TypeError | SyntaxError | NetworkError | OutsideModel

type_synonym 'a result = "error + 'a"

definition bindE :: "'a result \<Rightarrow> ('a \<Rightarrow> 'b result) \<Rightarrow> 'b result" where
  "bindE r f = (case r of Inl e \<Rightarrow> Inl e | Inr x \<Rightarrow> f x)"

fun mapE :: "('a \<Rightarrow> 'b result) \<Rightarrow> 'a list \<Rightarrow> 'b list result" where
  "mapE f [] = Inr []"
| "mapE f (x # xs) =
     (case f x of Inl e \<Rightarrow> Inl e
      | Inr y \<Rightarrow> (case mapE f xs of Inl e \<Rightarrow> Inl e | Inr ys \<Rightarrow> Inr (y # ys)))"

fun filterE :: "('a \<Rightarrow> bool result) \<Rightarrow> 'a list \<Rightarrow> 'a list result" where
  "filterE p [] = Inr []"
| "filterE p (x # xs) =
     (case p x of Inl e \<Rightarrow> Inl e
      | Inr b \<Rightarrow> (case filterE p xs of Inl e \<Rightarrow> Inl e
                  | Inr ys \<Rightarrow> Inr (if b then x # ys else ys)))"

fun findE :: "('a \<Rightarrow> bool result) \<Rightarrow> 'a list \<Rightarrow> 'a option result" where
  "findE p [] = Inr None"
| "findE p (x # xs) =
     (case p x of Inl e \<Rightarrow> Inl e | Inr b \<Rightarrow> (if b then Inr (Some x) else findE p xs))"

subsection \<open>Numbers\<close>

text \<open>Decimals without trailing zeros in the mantissa; zero is \<open>(0, 0)\<close>.\<close>

function normMant :: "int \<Rightarrow> int \<Rightarrow> int \<times> int" where
  "normMant m e =
     (if m \<noteq> 0 \<and> m mod 10 = 0 then normMant (m div 10) (e + 1)
      else (m, if m = 0 then 0 else e))"
  by pat_completeness auto
termination
  by (relation "measure (\<lambda>(m, e). nat \<bar>m\<bar>)") auto

declare normMant.simps [simp del]

definition mkDec :: "int \<Rightarrow> int \<Rightarrow> jsnum" where
  "mkDec m e = (case normMant m e of (m', e') \<Rightarrow> Dec m' e')"

text \<open>
  Integer helpers: \<open>ipow b k\<close> is \<open>b\<close> to the power \<open>k\<close> (1 for \<open>k \<le> 0\<close>),
  \<open>bitlen n\<close> the number of binary digits of \<open>n\<close>, \<open>declen n\<close> the number of
  decimal digits. A positive rational is a pair of positive integers \<open>(n, d)\<close>;
  \<open>scale base n d k\<close> is the rational \<open>n / d\<close> divided by \<open>base\<close> to the \<open>k\<close>.
\<close>

function ipow :: "int \<Rightarrow> int \<Rightarrow> int" where
  "ipow b k =
     (if k \<le> 0 then 1
      else (let h = ipow b (k div 2) in if even k then h * h else b * h * h))"
  by pat_completeness auto
termination
  by (relation "measure (\<lambda>(b, k). nat k)") auto

declare ipow.simps [simp del]

function bitlen :: "int \<Rightarrow> int" where
  "bitlen n = (if n \<le> 0 then 0 else 1 + bitlen (n div 2))"
  by pat_completeness auto
termination
  by (relation "measure nat") auto

declare bitlen.simps [simp del]

function declen :: "int \<Rightarrow> int" where
  "declen n = (if n < 10 then 1 else 1 + declen (n div 10))"
  by pat_completeness auto
termination
  by (relation "measure nat") auto

declare declen.simps [simp del]

definition scale :: "int \<Rightarrow> int \<Rightarrow> int \<Rightarrow> int \<Rightarrow> int \<times> int" where
  "scale base n d k = (if 0 \<le> k then (n, d * ipow base k) else (n * ipow base (- k), d))"

text \<open>The integer nearest to \<open>a / b\<close>, the even one of the two when it lies half-way.\<close>

definition roundHalfEven :: "int \<Rightarrow> int \<Rightarrow> int" where
  "roundHalfEven a b =
     (let q = a div b; r = a - q * b
      in if 2 * r < b then q else if b < 2 * r then q + 1 else if even q then q else q + 1)"

text \<open>
  Rounding a positive rational \<open>n / d\<close> to a double. A double is \<open>m * 2 ^ p\<close> with
  a significand \<open>m\<close> below \<open>2 ^ 53\<close> and \<open>- 1074 \<le> p \<le> 971\<close>; the significand is
  at least \<open>2 ^ 52\<close> unless \<open>p = - 1074\<close> (the subnormal numbers). \<open>lastPlace\<close> is
  the exponent \<open>p\<close> of the last binary place that the double keeps: the least
  \<open>p \<ge> - 1074\<close> with \<open>n / d < 2 ^ (p + 53)\<close>, which is
  \<open>bitlen n - bitlen d - 53\<close> or the next integer. The rational is then rounded to a
  multiple of \<open>2 ^ p\<close>; a significand that rounds up to \<open>2 ^ 53\<close> is \<open>2 ^ 52\<close> at
  the next exponent, and a result of \<open>2 ^ 1024\<close> or more is out of range.
  (\<open>9007199254740992\<close> is \<open>2 ^ 53\<close> and \<open>4503599627370496\<close> is \<open>2 ^ 52\<close>.)
\<close>

definition lastPlace :: "int \<Rightarrow> int \<Rightarrow> int" where
  "lastPlace n d =
     (let p = max (bitlen n - bitlen d - 53) (- 1074)
      in case scale 2 n d p of (a, b) \<Rightarrow> if a < b * 9007199254740992 then p else p + 1)"

datatype binary64 = Zero | Finite int int | Overflow

definition toBinary64 :: "int \<Rightarrow> int \<Rightarrow> binary64" where
  "toBinary64 n d =
     (let p = lastPlace n d
      in case scale 2 n d p of
           (a, b) \<Rightarrow>
             (let m = roundHalfEven a b
              in if m = 0 then Zero
                 else if m = 9007199254740992
                   then (if 971 \<le> p then Overflow else Finite 4503599627370496 (p + 1))
                 else if 971 < p then Overflow
                 else Finite m p))"

text \<open>The double nearest to the decimal \<open>s * 10 ^ t\<close>, for \<open>s \<ge> 0\<close>.\<close>

definition decToBinary64 :: "int \<Rightarrow> int \<Rightarrow> binary64" where
  "decToBinary64 s t = (case scale 10 s 1 (- t) of (n, d) \<Rightarrow> toBinary64 n d)"

text \<open>
  The digits of a double \<open>v\<close>, as \<^verbatim>\<open>Number::toString\<close> (ECMA-262) chooses them: the
  decimal \<open>s * 10 ^ t\<close> with the fewest digits \<open>k\<close> that reads back as \<open>v\<close>, and
  the one nearest to \<open>v\<close> when two of them do. With \<open>x = floorLog10 n d\<close> the
  exponent of the leading digit of \<open>v = n / d\<close>, the decimals of \<open>k\<close> digits on
  either side of \<open>v\<close> are \<open>q * 10 ^ (x - k + 1)\<close> and \<open>(q + 1) * 10 ^ (x - k + 1)\<close>
  for \<open>q\<close> the integer part of \<open>v / 10 ^ (x - k + 1)\<close>. Seventeen digits tell any two
  doubles apart, so the search stops there.
\<close>

definition floorLog10 :: "int \<Rightarrow> int \<Rightarrow> int" where
  "floorLog10 n d =
     (let x = declen n - declen d
      in case scale 10 n d x of (a, b) \<Rightarrow> if b \<le> a then x else x - 1)"

definition readsBack :: "binary64 \<Rightarrow> int \<times> int \<Rightarrow> bool" where
  "readsBack v c = (case c of (s, t) \<Rightarrow> 0 < s \<and> normMant s t = (s, t) \<and> decToBinary64 s t = v)"

fun shortestFrom :: "binary64 \<Rightarrow> int \<Rightarrow> int \<Rightarrow> int \<Rightarrow> int list \<Rightarrow> (int \<times> int) option" where
  "shortestFrom v n d x [] = None"
| "shortestFrom v n d x (k # ks) =
     (case scale 10 n d (x - k + 1) of
        (a, b) \<Rightarrow>
          (let q = a div b;
               r = a - q * b;
               lo = normMant q (x - k + 1);
               hi = normMant (q + 1) (x - k + 1);
               (near, far) = (if 2 * r < b \<or> (2 * r = b \<and> even q) then (lo, hi) else (hi, lo))
           in if readsBack v near then Some near
              else if readsBack v far then Some far
              else shortestFrom v n d x ks))"

definition shortestDigits :: "binary64 \<Rightarrow> (int \<times> int) option" where
  "shortestDigits v =
     (case v of
        Finite m p \<Rightarrow>
          (case scale 2 m 1 (- p) of
             (n, d) \<Rightarrow>
               shortestFrom v n d (floorLog10 n d)
                 [1, 2, 3, 4, 5, 6, 7, 8, 9, 10, 11, 12, 13, 14, 15, 16, 17])
      | _ \<Rightarrow> None)"

text \<open>
  The number that the decimal \<open>m * 10 ^ e\<close> denotes, in the form in which the model
  keeps a number: the digits of the nearest double. (Should the search for the digits
  find none, the decimal is kept as it is.)
\<close>

definition roundDec :: "int \<Rightarrow> int \<Rightarrow> jsnum" where
  "roundDec m e =
     (case normMant \<bar>m\<bar> e of
        (a, x) \<Rightarrow>
          (case decToBinary64 a x of
             Zero \<Rightarrow> Dec 0 0
           | Overflow \<Rightarrow> (if m < 0 then NegInf else PosInf)
           | Finite b p \<Rightarrow>
               (case shortestDigits (Finite b p) of
                  Some (s, t) \<Rightarrow> Dec (if m < 0 then - s else s) t
                | None \<Rightarrow> Dec (if m < 0 then - a else a) x)))"

fun normNum :: "jsnum \<Rightarrow> jsnum" where
  "normNum (Dec m e) = roundDec m e"
| "normNum n = n"

definition numIsZero :: "jsnum \<Rightarrow> bool" where
  "numIsZero n = (case n of Dec m e \<Rightarrow> decToBinary64 \<bar>m\<bar> e = Zero | _ \<Rightarrow> False)"

text \<open>\<^verbatim>\<open>===\<close> on numbers: by value, and \<^verbatim>\<open>NaN\<close> equals nothing.\<close>

definition numEq :: "jsnum \<Rightarrow> jsnum \<Rightarrow> bool" where
  "numEq a b = (a \<noteq> NaN \<and> b \<noteq> NaN \<and> normNum a = normNum b)"

text \<open>Decimal digits, computed on integers.\<close>

definition digitChar :: "int \<Rightarrow> char" where
  "digitChar d = char_of (48 + d)"

function digitsOf :: "int \<Rightarrow> string" where
  "digitsOf n = (if n < 10 then [digitChar n] else digitsOf (n div 10) @ [digitChar (n mod 10)])"
  by pat_completeness auto
termination
  by (relation "measure nat") auto

declare digitsOf.simps [simp del]

definition isDigit :: "char \<Rightarrow> bool" where
  "isDigit c = (48 \<le> (of_char c :: nat) \<and> (of_char c :: nat) \<le> 57)"

definition digitVal :: "char \<Rightarrow> int" where
  "digitVal c = of_char c - 48"

definition digitsVal :: "string \<Rightarrow> int" where
  "digitsVal ds = foldl (\<lambda>acc c. 10 * acc + digitVal c) 0 ds"

text \<open>
  \<^verbatim>\<open>Number::toString\<close> (ECMA-262, radix 10) on the decimal digits \<open>ds\<close> of the
  mantissa (\<open>k\<close> of them) and the position \<open>n\<close> of the decimal point.
\<close>

definition expSuffix :: "int \<Rightarrow> string" where
  "expSuffix n = CHR ''e'' # (if n - 1 < 0 then CHR ''-'' else CHR ''+'') # digitsOf \<bar>n - 1\<bar>"

definition placeDigits :: "string \<Rightarrow> int \<Rightarrow> string" where
  "placeDigits ds n =
     (let k = int (length ds) in
      if k \<le> n \<and> n \<le> 21 then ds @ replicate (nat (n - k)) CHR ''0''
      else if 0 < n \<and> n \<le> 21 then take (nat n) ds @ ''.'' @ drop (nat n) ds
      else if - 6 < n \<and> n \<le> 0 then ''0.'' @ replicate (nat (- n)) CHR ''0'' @ ds
      else if k = 1 then ds @ expSuffix n
      else take 1 ds @ ''.'' @ drop 1 ds @ expSuffix n)"

definition numToString :: "jsnum \<Rightarrow> string" where
  "numToString x =
     (case normNum x of
        NaN \<Rightarrow> ''NaN''
      | PosInf \<Rightarrow> ''Infinity''
      | NegInf \<Rightarrow> ''-Infinity''
      | Dec m e \<Rightarrow>
          (if m = 0 then ''0''
           else (let ds = digitsOf \<bar>m\<bar>
                 in (if m < 0 then ''-'' else '''') @ placeDigits ds (int (length ds) + e))))"

subsection \<open>Operators\<close>

fun truthy :: "jsval \<Rightarrow> bool" where
  "truthy JUndefined = False"
| "truthy JNull = False"
| "truthy (JBool b) = b"
| "truthy (JNum n) = (n \<noteq> NaN \<and> \<not> numIsZero n)"
| "truthy (JStr s) = (s \<noteq> [])"
| "truthy (JArr xs) = True"
| "truthy (JObj kvs) = True"

definition jsOr :: "jsval \<Rightarrow> jsval \<Rightarrow> jsval" where
  "jsOr a b = (if truthy a then a else b)"

definition jsAnd :: "jsval \<Rightarrow> jsval \<Rightarrow> jsval" where
  "jsAnd a b = (if truthy a then b else a)"

definition nullish :: "jsval \<Rightarrow> bool" where
  "nullish v = (v = JUndefined \<or> v = JNull)"

text \<open>
  Property access \<^verbatim>\<open>v.k\<close> for the keys the server reads (none of them is \<^verbatim>\<open>length\<close>,
  an index or a name on a prototype): the value stored under \<open>k\<close> in an object,
  \<^verbatim>\<open>undefined\<close> on every other value. \<open>getProp\<close> is used where the source has already
  tested the receiver; \<open>getE\<close> raises the \<^verbatim>\<open>TypeError\<close> of a read on
  \<^verbatim>\<open>undefined\<close> or \<^verbatim>\<open>null\<close>; \<open>optProp\<close> is \<^verbatim>\<open>v?.k\<close>.
\<close>

definition getProp :: "jsval \<Rightarrow> string \<Rightarrow> jsval" where
  "getProp v k = (case v of JObj kvs \<Rightarrow> (case map_of kvs k of Some x \<Rightarrow> x | None \<Rightarrow> JUndefined)
               | _ \<Rightarrow> JUndefined)"

definition getE :: "jsval \<Rightarrow> string \<Rightarrow> jsval result" where
  "getE v k = (if nullish v then Inl TypeError else Inr (getProp v k))"

definition optProp :: "jsval \<Rightarrow> string \<Rightarrow> jsval" where
  "optProp v k = (if nullish v then JUndefined else getProp v k)"

text \<open>
  \<^verbatim>\<open>a === b\<close>. Objects and arrays are equal only to themselves; the server compares a
  cached field with a value that comes from a request or from a freshly parsed reply,
  never the same object, so such a comparison is false.
\<close>

fun strictEq :: "jsval \<Rightarrow> jsval \<Rightarrow> bool" where
  "strictEq JUndefined JUndefined = True"
| "strictEq JNull JNull = True"
| "strictEq (JBool a) (JBool b) = (a = b)"
| "strictEq (JNum a) (JNum b) = numEq a b"
| "strictEq (JStr a) (JStr b) = (a = b)"
| "strictEq a b = False"

fun joinWith :: "string \<Rightarrow> string list \<Rightarrow> string" where
  "joinWith sep [] = []"
| "joinWith sep [x] = x"
| "joinWith sep (x # y # ys) = x @ sep @ joinWith sep (y # ys)"

text \<open>
  \<^verbatim>\<open>ToString\<close>, as a template literal applies it. A plain object prints as
  \<^verbatim>\<open>[object Object]\<close>, an array as its elements joined by commas (\<^verbatim>\<open>null\<close> and
  \<^verbatim>\<open>undefined\<close> elements as the empty string).
\<close>

fun jsToString :: "jsval \<Rightarrow> string" where
  "jsToString JUndefined = ''undefined''"
| "jsToString JNull = ''null''"
| "jsToString (JBool b) = (if b then ''true'' else ''false'')"
| "jsToString (JNum n) = numToString n"
| "jsToString (JStr s) = s"
| "jsToString (JArr xs) =
     joinWith '','' (map (\<lambda>x. if x = JUndefined \<or> x = JNull then [] else jsToString x) xs)"
| "jsToString (JObj kvs) = ''[object Object]''"

subsection \<open>Strings\<close>

text \<open>
  White space as \<^verbatim>\<open>String.prototype.trim\<close> and \<^verbatim>\<open>parseFloat\<close> skip it: tab, line
  feed, vertical tab, form feed, carriage return, space and the no-break space.
\<close>

definition isWhite :: "char \<Rightarrow> bool" where
  "isWhite c = (c \<in> set [CHR 0x09, CHR 0x0A, CHR 0x0B, CHR 0x0C, CHR 0x0D, CHR 0x20, CHR 0xA0])"

definition trimStart :: "string \<Rightarrow> string" where
  "trimStart s = dropWhile isWhite s"

definition trim :: "string \<Rightarrow> string" where
  "trim s = rev (dropWhile isWhite (rev (dropWhile isWhite s)))"

definition startsWith :: "string \<Rightarrow> string \<Rightarrow> bool" where
  "startsWith s p = prefix p s"

definition endsWith :: "string \<Rightarrow> string \<Rightarrow> bool" where
  "endsWith s p = suffix p s"

definition strIncludes :: "string \<Rightarrow> string \<Rightarrow> bool" where
  "strIncludes s p = sublist p s"

definition lowerChar :: "char \<Rightarrow> char" where
  "lowerChar c =
     (let n = (of_char c :: nat)
      in if (65 \<le> n \<and> n \<le> 90) \<or> (192 \<le> n \<and> n \<le> 222 \<and> n \<noteq> 215) then char_of (n + 32) else c)"

definition toLowerCase :: "string \<Rightarrow> string" where
  "toLowerCase s = map lowerChar s"

text \<open>
  \<^verbatim>\<open>xs.slice(start)\<close> with the relative index of ECMA-262: a negative \<open>start\<close> counts
  from the end and stops at the first element.
\<close>

definition sliceFrom :: "int \<Rightarrow> 'a list \<Rightarrow> 'a list" where
  "sliceFrom start xs =
     (let len = int (length xs);
          k = (if start < 0 then max (len + start) 0 else min start len)
      in drop (nat k) xs)"

text \<open>\<^verbatim>\<open>s.slice(0, -n)\<close> for \<open>n > 0\<close>: everything but the last \<open>n\<close> code units.\<close>

definition sliceDropEnd :: "nat \<Rightarrow> 'a list \<Rightarrow> 'a list" where
  "sliceDropEnd n xs = take (nat (max (int (length xs) - int n) 0)) xs"

subsection \<open>parseFloat\<close>

text \<open>
  \<^verbatim>\<open>parseFloat\<close> reads the longest prefix of the trimmed text that is a
  \<^verbatim>\<open>StrDecimalLiteral\<close>: a sign, then \<^verbatim>\<open>Infinity\<close> or digits with an optional
  fraction and an optional exponent (an exponent with no digit is not part of the
  literal). No such prefix gives \<^verbatim>\<open>NaN\<close>.
\<close>

definition parseExponent :: "string \<Rightarrow> int" where
  "parseExponent r =
     (case r of
        [] \<Rightarrow> 0
      | c # r1 \<Rightarrow>
          (if c = CHR ''e'' \<or> c = CHR ''E'' then
             (case r1 of
                [] \<Rightarrow> 0
              | s # r2 \<Rightarrow>
                  (if s = CHR ''-'' then
                     (if takeWhile isDigit r2 = [] then 0 else - digitsVal (takeWhile isDigit r2))
                   else if s = CHR ''+'' then digitsVal (takeWhile isDigit r2)
                   else digitsVal (takeWhile isDigit r1)))
           else 0))"

definition parseUnsigned :: "bool \<Rightarrow> string \<Rightarrow> jsnum" where
  "parseUnsigned neg t =
     (if startsWith t ''Infinity'' then (if neg then NegInf else PosInf)
      else
        (let ip = takeWhile isDigit t;
             r1 = dropWhile isDigit t;
             hasDot = (r1 \<noteq> [] \<and> hd r1 = CHR ''.'');
             fp = (if hasDot then takeWhile isDigit (tl r1) else []);
             r2 = (if hasDot then dropWhile isDigit (tl r1) else r1)
         in if ip = [] \<and> fp = [] then NaN
            else roundDec ((if neg then - 1 else 1) * digitsVal (ip @ fp))
                          (parseExponent r2 - int (length fp))))"

definition parseFloatStr :: "string \<Rightarrow> jsnum" where
  "parseFloatStr s =
     (case trimStart s of
        [] \<Rightarrow> NaN
      | c # cs \<Rightarrow>
          (if c = CHR ''-'' then parseUnsigned True cs
           else if c = CHR ''+'' then parseUnsigned False cs
           else parseUnsigned False (c # cs)))"

text \<open>
  \<^verbatim>\<open>parseFloat(v)\<close> parses \<^verbatim>\<open>ToString(v)\<close>. On a number that is the number itself
  (\<^verbatim>\<open>Number::toString\<close> prints a literal that reads back as the same value), which the
  model takes as the definition.
\<close>

definition parseFloat :: "jsval \<Rightarrow> jsnum" where
  "parseFloat v = (case v of JNum n \<Rightarrow> normNum n | _ \<Rightarrow> parseFloatStr (jsToString v))"

section \<open>Configuration and cache\<close>

text \<open>
  The environment variables read at start-up (\<^verbatim>\<open>process.env\<close> gives a string or
  \<^verbatim>\<open>undefined\<close>) and the process-wide \<^verbatim>\<open>cmsCache\<close>. Handlers take the cache as an
  argument and return the new one where they write it.
\<close>

record env =
  WEBFLOW_API_TOKEN :: "string option"
  WEBFLOW_SITE_ID :: "string option"
  ANTHROPIC_API_KEY :: "string option"
  MAPBOX_TOKEN :: "string option"

definition envVal :: "string option \<Rightarrow> jsval" where
  "envVal v = (case v of None \<Rightarrow> JUndefined | Some s \<Rightarrow> JStr s)"

record cmsCache =
  hotels :: "jsval list"
  regions :: "jsval list"
  collections :: "jsval list"
  lastFetch :: "int option"


definition CACHE_DURATION :: int where
  "CACHE_DURATION = 30 * 60 * 1000"

definition jsNat :: "nat \<Rightarrow> jsval" where
  "jsNat n = JNum (mkDec (int n) 0)"

text \<open>What a handler sends: a status with a JSON body, or an error it does not catch.\<close>

datatype httpReply = Reply nat jsval | Uncaught error

section \<open>Hotel data helpers\<close>

text \<open>
  The object literal of \<^verbatim>\<open>getHotelBySlug\<close> (lines 144-155), on \<open>f = hotel.fieldData\<close>.
\<close>

definition slugRecord :: "jsval \<Rightarrow> jsval" where
  "slugRecord f = JObj
     [(''name'', jsOr (jsOr (getProp f ''name'') (getProp f ''hotel-name'')) (JStr ''Unnamed'')),
      (''slug'', getProp f ''slug''),
      (''region'', jsOr (jsOr (jsOr (getProp f ''region'') (getProp f ''location''))
                               (getProp f ''region-2'')) (JStr ''Portugal'')),
      (''description'', jsOr (jsOr (jsOr (getProp f ''short-description'') (getProp f ''description''))
                                    (getProp f ''meta-description'')) (JStr '''')),
      (''lat'', jsOr (JNum (parseFloat (jsOr (getProp f ''latitude'') (getProp f ''lat'')))) JNull),
      (''lng'', jsOr (JNum (parseFloat (jsOr (jsOr (getProp f ''longitude'') (getProp f ''lng''))
                                              (getProp f ''lon'')))) JNull),
      (''image'', jsOr (jsOr (jsOr (optProp (getProp f ''cover-image'') ''url'')
                                    (optProp (getProp f ''cover'') ''url''))
                              (optProp (getProp f ''main-image'') ''url'')) (JStr '''')),
      (''bookingUrl'', jsOr (jsOr (jsOr (getProp f ''booking-url'') (getProp f ''booking-link''))
                                   (getProp f ''show-prices-url'')) (JStr '''')),
      (''rooms'', jsOr (jsOr (getProp f ''number-of-rooms'') (getProp f ''rooms'')) (JStr '''')),
      (''url'', JStr (''https://joandso.com/hotels-portugal/'' @ jsToString (getProp f ''slug'')))]"

text \<open>The object literal of \<^verbatim>\<open>getAllHotels\<close> (lines 163-173).\<close>

definition listRecord :: "jsval \<Rightarrow> jsval" where
  "listRecord f = JObj
     [(''name'', jsOr (jsOr (getProp f ''name'') (getProp f ''hotel-name'')) (JStr ''Unnamed'')),
      (''slug'', getProp f ''slug''),
      (''region'', jsOr (jsOr (jsOr (getProp f ''region'') (getProp f ''location''))
                               (getProp f ''region-2'')) (JStr ''Portugal'')),
      (''description'', jsOr (jsOr (getProp f ''short-description'') (getProp f ''description''))
                              (JStr '''')),
      (''lat'', jsOr (JNum (parseFloat (jsOr (getProp f ''latitude'') (getProp f ''lat'')))) JNull),
      (''lng'', jsOr (JNum (parseFloat (jsOr (jsOr (getProp f ''longitude'') (getProp f ''lng''))
                                              (getProp f ''lon'')))) JNull),
      (''image'', jsOr (jsOr (jsOr (optProp (getProp f ''cover-image'') ''url'')
                                    (optProp (getProp f ''cover'') ''url''))
                              (optProp (getProp f ''main-image'') ''url'')) (JStr '''')),
      (''bookingUrl'', jsOr (jsOr (jsOr (getProp f ''booking-url'') (getProp f ''booking-link''))
                                   (getProp f ''show-prices-url'')) (JStr '''')),
      (''url'', JStr (''https://joandso.com/hotels-portugal/'' @ jsToString (getProp f ''slug'')))]"

text \<open>
  \<^verbatim>\<open>getHotelBySlug(slug)\<close>: the first cached item whose \<^verbatim>\<open>fieldData?.slug\<close> is
  \<open>slug\<close>, as a record, or \<^verbatim>\<open>null\<close>. Reading \<^verbatim>\<open>h.fieldData\<close> on a \<^verbatim>\<open>null\<close> item
  raises.
\<close>

definition slugMatches :: "jsval \<Rightarrow> jsval \<Rightarrow> bool result" where
  "slugMatches slug h =
     bindE (getE h ''fieldData'') (\<lambda>f. Inr (strictEq (optProp f ''slug'') slug))"

definition getHotelBySlug :: "cmsCache \<Rightarrow> jsval \<Rightarrow> jsval result" where
  "getHotelBySlug c slug =
     (case findE (slugMatches slug) (hotels c) of
        Inl e \<Rightarrow> Inl e
      | Inr None \<Rightarrow> Inr JNull
      | Inr (Some hotel) \<Rightarrow>
          (if \<not> truthy hotel then Inr JNull
           else (let f = getProp hotel ''fieldData''
                 in if nullish f then Inl TypeError else Inr (slugRecord f))))"

text \<open>
  The filter of \<^verbatim>\<open>getAllHotels\<close> (line 160), which the marker listing of the legacy
  variant repeats:
  \<^verbatim>\<open>h.fieldData && !h.fieldData.archived && !h.fieldData['is-closed']\<close>.
\<close>

definition notArchived :: "jsval \<Rightarrow> bool result" where
  "notArchived h =
     bindE (getE h ''fieldData'')
       (\<lambda>f. Inr (truthy f \<and> \<not> truthy (getProp f ''archived'') \<and> \<not> truthy (getProp f ''is-closed'')))"

definition getAllHotels :: "cmsCache \<Rightarrow> jsval list result" where
  "getAllHotels c =
     bindE (filterE notArchived (hotels c))
       (\<lambda>hs. Inr (map (\<lambda>h. listRecord (getProp h ''fieldData'')) hs))"

text \<open>
  \<^verbatim>\<open>GET /api/hotels/markers\<close> of the legacy variant of the server: the same filter, a
  record of the raw coordinate fields (no \<^verbatim>\<open>parseFloat\<close>), then
  \<^verbatim>\<open>.filter(h => h.lat && h.lng)\<close>.
\<close>

definition markerRecord :: "jsval \<Rightarrow> jsval" where
  "markerRecord f = JObj
     [(''name'', jsOr (jsOr (getProp f ''name'') (getProp f ''hotel-name'')) (JStr ''Unnamed'')),
      (''slug'', getProp f ''slug''),
      (''region'', jsOr (jsOr (getProp f ''region'') (getProp f ''location'')) (JStr ''Portugal'')),
      (''lat'', jsOr (getProp f ''latitude'') (getProp f ''lat'')),
      (''lng'', jsOr (jsOr (getProp f ''longitude'') (getProp f ''lng'')) (getProp f ''lon'')),
      (''image'', jsOr (jsOr (optProp (getProp f ''cover-image'') ''url'')
                              (optProp (getProp f ''cover'') ''url''))
                        (optProp (getProp f ''main-image'') ''url''))]"

definition hasCoordinates :: "jsval \<Rightarrow> bool" where
  "hasCoordinates h = truthy (jsAnd (getProp h ''lat'') (getProp h ''lng''))"

definition hotelMarkers :: "cmsCache \<Rightarrow> jsval list result" where
  "hotelMarkers c =
     bindE (filterE notArchived (hotels c))
       (\<lambda>hs. Inr (filter hasCoordinates (map (\<lambda>h. markerRecord (getProp h ''fieldData'')) hs)))"

section \<open>Routes over the cache\<close>

definition apiConfig :: "env \<Rightarrow> cmsCache \<Rightarrow> httpReply" where
  "apiConfig e c = Reply 200 (JObj
     [(''mapboxToken'', jsOr (envVal (MAPBOX_TOKEN e)) (JStr '''')),
      (''hasWebflow'', JBool (truthy (envVal (WEBFLOW_API_TOKEN e)))),
      (''hasClaude'', JBool (truthy (envVal (ANTHROPIC_API_KEY e)))),
      (''hotelCount'', jsNat (length (hotels c)))])"

definition apiHotels :: "cmsCache \<Rightarrow> httpReply" where
  "apiHotels c = (case getAllHotels c of Inl e \<Rightarrow> Uncaught e | Inr hs \<Rightarrow> Reply 200 (JArr hs))"

definition apiHotelBySlug :: "cmsCache \<Rightarrow> string \<Rightarrow> httpReply" where
  "apiHotelBySlug c slug =
     (case getHotelBySlug c (JStr slug) of
        Inl e \<Rightarrow> Uncaught e
      | Inr hotel \<Rightarrow>
          (if truthy hotel then Reply 200 hotel
           else Reply 404 (JObj [(''error'', JStr ''Hotel not found'')])))"

definition apiHotelMarkers :: "cmsCache \<Rightarrow> httpReply" where
  "apiHotelMarkers c = (case hotelMarkers c of Inl e \<Rightarrow> Uncaught e | Inr ms \<Rightarrow> Reply 200 (JArr ms))"

section \<open>The network\<close>

text \<open>
  Every outbound call is a \<^verbatim>\<open>fetch\<close>. The model names the three requests the server
  issues (with the values its URL and headers are built from) and what \<^verbatim>\<open>fetch\<close> gives
  back: a rejected promise, or a response with its status and the result of
  \<^verbatim>\<open>response.json()\<close> (\<open>None\<close> when the body is not JSON, which makes
  \<^verbatim>\<open>json()\<close> throw). The remote side is a parameter: a function of the request and of
  the number of requests issued before it, so it may answer the same request differently
  later on. Handlers append to a log of the requests they issue.
\<close>

datatype request =
    CollectionsReq string string
  | ItemsReq string nat nat string
  | MessagesReq string "nat \<times> string" "jsval list"

datatype response = Rejected | Response nat "jsval option"

type_synonym network = "nat \<Rightarrow> request \<Rightarrow> response"

definition ok :: "nat \<Rightarrow> bool" where
  "ok status = (200 \<le> status \<and> status \<le> 299)"

section \<open>Webflow CMS functions\<close>

definition pageLimit :: nat where
  "pageLimit = 100"

text \<open>
  \<^verbatim>\<open>...(data.items || [])\<close>: the elements that \<^verbatim>\<open>items.push\<close> receives. A string
  spreads into its characters; any other truthy value that is not an array is not
  iterable.
\<close>

definition spreadItems :: "jsval \<Rightarrow> jsval list result" where
  "spreadItems v =
     (case v of
        JArr xs \<Rightarrow> Inr xs
      | JStr s \<Rightarrow> Inr (map (\<lambda>ch. JStr [ch]) s)
      | _ \<Rightarrow> Inl TypeError)"

definition pageItems :: "jsval \<Rightarrow> jsval list result" where
  "pageItems data = bindE (getE data ''items'') (\<lambda>items. spreadItems (jsOr items (JArr [])))"

text \<open>\<^verbatim>\<open>data.items && data.items.length === limit\<close>, as a condition.\<close>

definition hasMorePages :: "jsval \<Rightarrow> bool" where
  "hasMorePages data =
     (let items = getProp data ''items''
      in truthy items \<and>
         (case items of JArr xs \<Rightarrow> length xs = pageLimit
          | JStr s \<Rightarrow> length s = pageLimit
          | _ \<Rightarrow> False))"

text \<open>
  The \<^verbatim>\<open>while (hasMore)\<close> loop of \<^verbatim>\<open>fetchAllCollectionItems\<close>, from the state
  (\<open>offset\<close>, \<open>items\<close>) at the head of an iteration. A remote side that keeps sending
  full pages keeps the loop running: the result is then \<open>None\<close>. The 200 ms pause
  between pages is not modelled.
\<close>

partial_function (option) fetchPages ::
  "network \<Rightarrow> string \<Rightarrow> string \<Rightarrow> nat \<Rightarrow> jsval list \<Rightarrow> request list
     \<Rightarrow> (jsval list result \<times> request list) option" where
  "fetchPages net token collectionId offset items log =
     (case net (length log) (ItemsReq collectionId offset pageLimit token) of
        Rejected \<Rightarrow> Some (Inl NetworkError, log @ [ItemsReq collectionId offset pageLimit token])
      | Response status body \<Rightarrow>
          (if \<not> ok status then Some (Inr items, log @ [ItemsReq collectionId offset pageLimit token])
           else
             (case body of
                None \<Rightarrow> Some (Inl SyntaxError, log @ [ItemsReq collectionId offset pageLimit token])
              | Some data \<Rightarrow>
                  (case pageItems data of
                     Inl e \<Rightarrow> Some (Inl e, log @ [ItemsReq collectionId offset pageLimit token])
                   | Inr new \<Rightarrow>
                       (if hasMorePages data then
                          fetchPages net token collectionId (offset + pageLimit) (items @ new)
                            (log @ [ItemsReq collectionId offset pageLimit token])
                        else Some (Inr (items @ new),
                                   log @ [ItemsReq collectionId offset pageLimit token]))))))"

declare fetchPages.simps [code]

definition fetchAllCollectionItems ::
  "network \<Rightarrow> string \<Rightarrow> string \<Rightarrow> request list \<Rightarrow> (jsval list result \<times> request list) option" where
  "fetchAllCollectionItems net token collectionId log = fetchPages net token collectionId 0 [] log"

definition siteId :: "env \<Rightarrow> string" where
  "siteId e = jsToString (jsOr (envVal (WEBFLOW_SITE_ID e)) (JStr ''6005cd6988e875868452d33d''))"

definition bearer :: "env \<Rightarrow> string" where
  "bearer e = ''Bearer '' @ jsToString (envVal (WEBFLOW_API_TOKEN e))"

text \<open>
  \<^verbatim>\<open>fetchWebflowCollections\<close> catches everything it raises and then answers
  \<^verbatim>\<open>{ collections: [] }\<close>.
\<close>

definition fetchWebflowCollections :: "network \<Rightarrow> env \<Rightarrow> request list \<Rightarrow> jsval \<times> request list" where
  "fetchWebflowCollections net e log =
     (case net (length log) (CollectionsReq (siteId e) (bearer e)) of
        Response status (Some data) \<Rightarrow>
          (if ok status then data else JObj [(''collections'', JArr [])])
      | _ \<Rightarrow> JObj [(''collections'', JArr [])],
      log @ [CollectionsReq (siteId e) (bearer e)])"

text \<open>
  The \<^verbatim>\<open>for ... of\<close> loop of \<^verbatim>\<open>refreshCMSCache\<close> (lines 106-113) over the listed
  collections, from the identifiers found so far.
\<close>

definition collectionName :: "jsval \<Rightarrow> string result" where
  "collectionName collection =
     bindE (getE collection ''displayName'')
       (\<lambda>displayName.
          (case jsOr (jsOr displayName (getProp collection ''slug'')) (JStr '''') of
             JStr s \<Rightarrow> Inr (toLowerCase s)
           | _ \<Rightarrow> Inl TypeError))"

fun findCollections :: "jsval list \<Rightarrow> jsval \<times> jsval \<Rightarrow> (jsval \<times> jsval) result" where
  "findCollections [] ids = Inr ids"
| "findCollections (collection # rest) (hotelsCollectionId, regionsCollectionId) =
     (case collectionName collection of
        Inl e \<Rightarrow> Inl e
      | Inr name \<Rightarrow>
          (if strIncludes name ''hotel'' \<and> \<not> strIncludes name ''type'' then
             findCollections rest (getProp collection ''id'', regionsCollectionId)
           else if strIncludes name ''region'' \<or> strIncludes name ''location'' then
             findCollections rest (hotelsCollectionId, getProp collection ''id'')
           else findCollections rest (hotelsCollectionId, regionsCollectionId)))"

definition discoverCollections :: "jsval \<Rightarrow> (jsval \<times> jsval) result" where
  "discoverCollections collectionsData =
     bindE (getE collectionsData ''collections'')
       (\<lambda>cs. bindE (spreadItems (jsOr cs (JArr []))) (\<lambda>xs. findCollections xs (JNull, JNull)))"

text \<open>
  \<^verbatim>\<open>refreshCMSCache\<close>. The result is the cache and the request log after the call,
  with the error that the \<^verbatim>\<open>catch\<close> block logged, if one was raised in the
  \<^verbatim>\<open>try\<close> block. \<open>now\<close> is what \<^verbatim>\<open>Date.now()\<close> returns on line 127.
\<close>

definition refreshCMSCache ::
  "network \<Rightarrow> env \<Rightarrow> int \<Rightarrow> cmsCache \<Rightarrow> request list
     \<Rightarrow> (cmsCache \<times> request list \<times> error option) option" where
  "refreshCMSCache net e now c log =
     (if \<not> truthy (envVal (WEBFLOW_API_TOKEN e)) then Some (c, log, None)
      else
        (case fetchWebflowCollections net e log of
           (collectionsData, log1) \<Rightarrow>
             (case discoverCollections collectionsData of
                Inl err \<Rightarrow> Some (c, log1, Some err)
              | Inr (hotelsCollectionId, regionsCollectionId) \<Rightarrow>
                  (case (if truthy hotelsCollectionId
                         then fetchAllCollectionItems net (bearer e) (jsToString hotelsCollectionId) log1
                         else Some (Inr (hotels c), log1)) of
                     None \<Rightarrow> None
                   | Some (Inl err, log2) \<Rightarrow> Some (c, log2, Some err)
                   | Some (Inr hs, log2) \<Rightarrow>
                       (case (if truthy regionsCollectionId
                              then fetchAllCollectionItems net (bearer e)
                                     (jsToString regionsCollectionId) log2
                              else Some (Inr (regions c), log2)) of
                          None \<Rightarrow> None
                        | Some (Inl err, log3) \<Rightarrow> Some (c\<lparr>hotels := hs\<rparr>, log3, Some err)
                        | Some (Inr rs, log3) \<Rightarrow>
                            Some (c\<lparr>hotels := hs, regions := rs, lastFetch := Some now\<rparr>,
                                  log3, None))))))"

text \<open>\<^verbatim>\<open>POST /api/cms/refresh\<close>.\<close>

definition apiCmsRefresh ::
  "network \<Rightarrow> env \<Rightarrow> int \<Rightarrow> cmsCache \<Rightarrow> request list
     \<Rightarrow> (httpReply \<times> cmsCache \<times> request list) option" where
  "apiCmsRefresh net e now c log =
     map_option
       (\<lambda>(c', log', err).
          (Reply 200 (JObj [(''success'', JBool True), (''hotelCount'', jsNat (length (hotels c')))]),
           c', log'))
       (refreshCMSCache net e now c log)"

section \<open>JSON text\<close>

text \<open>
  \<^verbatim>\<open>JSON.stringify\<close> on a JSON value: \<open>None\<close> stands for the result
  \<^verbatim>\<open>undefined\<close>. Property keys of an object are taken to be distinct.
\<close>

definition hexDigit :: "nat \<Rightarrow> char" where
  "hexDigit n = (if n < 10 then char_of (48 + n) else char_of (87 + n))"

definition escapeChar :: "char \<Rightarrow> string" where
  "escapeChar c =
     (let n = (of_char c :: nat)
      in if c = CHR 0x22 then [CHR 0x5C, CHR 0x22]
         else if c = CHR 0x5C then [CHR 0x5C, CHR 0x5C]
         else if n = 8 then [CHR 0x5C, CHR ''b'']
         else if n = 12 then [CHR 0x5C, CHR ''f'']
         else if n = 10 then [CHR 0x5C, CHR ''n'']
         else if n = 13 then [CHR 0x5C, CHR ''r'']
         else if n = 9 then [CHR 0x5C, CHR ''t'']
         else if n < 32 then [CHR 0x5C, CHR ''u'', CHR ''0'', CHR ''0'', hexDigit (n div 16), hexDigit (n mod 16)]
         else [c])"

definition quoteJson :: "string \<Rightarrow> string" where
  "quoteJson s = CHR 0x22 # concat (map escapeChar s) @ [CHR 0x22]"

fun stringifyVal :: "jsval \<Rightarrow> string option" where
  "stringifyVal JUndefined = None"
| "stringifyVal JNull = Some ''null''"
| "stringifyVal (JBool b) = Some (if b then ''true'' else ''false'')"
| "stringifyVal (JNum n) = Some (case normNum n of Dec m e \<Rightarrow> numToString n | _ \<Rightarrow> ''null'')"
| "stringifyVal (JStr s) = Some (quoteJson s)"
| "stringifyVal (JArr xs) =
     Some (''['' @ joinWith '','' (map (\<lambda>x. case stringifyVal x of None \<Rightarrow> ''null'' | Some t \<Rightarrow> t) xs)
           @ '']'')"
| "stringifyVal (JObj kvs) =
     Some (''{'' @ joinWith '',''
             (concat (map (\<lambda>kv. case stringifyVal (snd kv) of None \<Rightarrow> []
                                  | Some t \<Rightarrow> [quoteJson (fst kv) @ '':'' @ t]) kvs))
           @ ''}'')"

definition jsonStringify :: "jsval \<Rightarrow> jsval" where
  "jsonStringify v = (case stringifyVal v of None \<Rightarrow> JUndefined | Some t \<Rightarrow> JStr t)"

text \<open>
  \<^verbatim>\<open>JSON.parse\<close>: a lexer and a parser with an explicit stack of open arrays and
  objects. A text that is not JSON gives \<open>SyntaxError\<close>. An escape \<^verbatim>\<open>\uXXXX\<close> above
  255 denotes a code unit that a \<open>char\<close> cannot hold: the result is then
  \<open>OutsideModel\<close>, and the model says nothing about such a text.
\<close>

datatype token = TLBrace | TRBrace | TLBracket | TRBracket | TColon | TComma | TScalar jsval

definition isJsonWhite :: "char \<Rightarrow> bool" where
  "isJsonWhite c = (c \<in> set [CHR 0x20, CHR 0x09, CHR 0x0A, CHR 0x0D])"

definition hexVal :: "char \<Rightarrow> nat option" where
  "hexVal c =
     (let n = (of_char c :: nat)
      in if 48 \<le> n \<and> n \<le> 57 then Some (n - 48)
         else if 97 \<le> n \<and> n \<le> 102 then Some (n - 87)
         else if 65 \<le> n \<and> n \<le> 70 then Some (n - 55)
         else None)"

definition hex4 :: "string \<Rightarrow> nat option" where
  "hex4 ds =
     (case map hexVal ds of
        [Some a, Some b, Some c, Some d] \<Rightarrow> Some (((a * 16 + b) * 16 + c) * 16 + d)
      | _ \<Rightarrow> None)"

definition unescape :: "char \<Rightarrow> char option" where
  "unescape c =
     (if c = CHR 0x22 \<or> c = CHR 0x5C \<or> c = CHR ''/'' then Some c
      else if c = CHR ''b'' then Some (CHR 0x08)
      else if c = CHR ''f'' then Some (CHR 0x0C)
      else if c = CHR ''n'' then Some (CHR 0x0A)
      else if c = CHR ''r'' then Some (CHR 0x0D)
      else if c = CHR ''t'' then Some (CHR 0x09)
      else None)"

text \<open>
  The rest of a string literal after its opening quote: the string (collected in
  \<open>acc\<close>, last character first) and the text after the closing quote.
\<close>

function lexString :: "string \<Rightarrow> string \<Rightarrow> (string \<times> string) result" where
  "lexString [] acc = Inl SyntaxError"
| "lexString (c # cs) acc =
     (if c = CHR 0x22 then Inr (rev acc, cs)
      else if c = CHR 0x5C then
        (case cs of
           [] \<Rightarrow> Inl SyntaxError
         | e # cs' \<Rightarrow>
             (if e = CHR ''u'' then
                (case hex4 (take 4 cs') of
                   None \<Rightarrow> Inl SyntaxError
                 | Some v \<Rightarrow>
                     (if v < 256 then lexString (drop 4 cs') (char_of v # acc)
                      else Inl OutsideModel))
              else
                (case unescape e of
                   None \<Rightarrow> Inl SyntaxError
                 | Some ch \<Rightarrow> lexString cs' (ch # acc))))
      else if (of_char c :: nat) < 32 then Inl SyntaxError
      else lexString cs (c # acc))"
  by pat_completeness auto
termination
  by (relation "measure (\<lambda>(cs, acc). length cs)") auto

text \<open>
  A number token: the JSON grammar \<^verbatim>\<open>-? int frac? exp?\<close> on the longest run of
  characters that can stand in a number.
\<close>

definition isNumChar :: "char \<Rightarrow> bool" where
  "isNumChar c = (isDigit c \<or> c \<in> set [CHR ''-'', CHR ''+'', CHR ''.'', CHR ''e'', CHR ''E''])"

definition jsonNumber :: "string \<Rightarrow> jsnum option" where
  "jsonNumber lx =
     (let neg = (lx \<noteq> [] \<and> hd lx = CHR ''-'');
          t = (if neg then tl lx else lx);
          ip = takeWhile isDigit t;
          r1 = dropWhile isDigit t;
          hasDot = (r1 \<noteq> [] \<and> hd r1 = CHR ''.'');
          fp = (if hasDot then takeWhile isDigit (tl r1) else []);
          r2 = (if hasDot then dropWhile isDigit (tl r1) else r1);
          hasExp = (r2 \<noteq> [] \<and> (hd r2 = CHR ''e'' \<or> hd r2 = CHR ''E''));
          r3 = (if hasExp then tl r2 else r2);
          expNeg = (hasExp \<and> r3 \<noteq> [] \<and> hd r3 = CHR ''-'');
          r4 = (if hasExp \<and> r3 \<noteq> [] \<and> (hd r3 = CHR ''-'' \<or> hd r3 = CHR ''+'') then tl r3 else r3);
          ed = (if hasExp then takeWhile isDigit r4 else []);
          rest = (if hasExp then dropWhile isDigit r4 else r2)
      in if ip = [] \<or> (1 < length ip \<and> hd ip = CHR ''0'') \<or> (hasDot \<and> fp = [])
            \<or> (hasExp \<and> ed = []) \<or> rest \<noteq> []
         then None
         else Some (roundDec ((if neg then - 1 else 1) * digitsVal (ip @ fp))
                             ((if expNeg then - 1 else 1) * digitsVal ed - int (length fp))))"

definition consTok :: "token \<Rightarrow> token list result \<Rightarrow> token list result" where
  "consTok t r = (case r of Inl e \<Rightarrow> Inl e | Inr ts \<Rightarrow> Inr (t # ts))"

lemma lexString_shorter: "lexString cs acc = Inr (s, rest) \<Longrightarrow> length rest \<le> length cs"
proof (induction cs acc rule: lexString.induct)
  case (1 acc)
  then show ?case by simp
next
  case (2 c cs acc)
  note run = \<open>lexString (c # cs) acc = Inr (s, rest)\<close>
  consider (quote) "c = CHR 0x22"
    | (escape) "c \<noteq> CHR 0x22" "c = CHR 0x5C"
    | (plain) "c \<noteq> CHR 0x22" "c \<noteq> CHR 0x5C"
    by blast
  then show ?case
  proof cases
    case quote
    with run show ?thesis by simp
  next
    case plain
    with run have ctl: "\<not> (of_char c :: nat) < 32" and rec: "lexString cs (c # acc) = Inr (s, rest)"
      by (simp_all split: if_splits)
    from "2.IH"(3) [OF plain ctl rec] show ?thesis by simp
  next
    case escape
    with run obtain e cs' where cs: "cs = e # cs'"
      by (cases cs) simp_all
    show ?thesis
    proof (cases "e = CHR ''u''")
      case True
      with run escape cs obtain v where hex: "hex4 (take 4 cs') = Some v"
        by (cases "hex4 (take 4 cs')") simp_all
      with run escape cs True have small: "v < 256"
        and rec: "lexString (drop 4 cs') (char_of v # acc) = Inr (s, rest)"
        by (simp_all split: if_splits)
      from "2.IH"(1) [OF escape cs True hex small rec] cs show ?thesis by simp
    next
      case False
      with run escape cs obtain ch where un: "unescape e = Some ch"
        by (cases "unescape e") simp_all
      with run escape cs False have rec: "lexString cs' (ch # acc) = Inr (s, rest)"
        by simp
      from "2.IH"(2) [OF escape cs False un rec] cs show ?thesis by simp
    qed
  qed
qed

function lexJson :: "string \<Rightarrow> token list result" where
  "lexJson [] = Inr []"
| "lexJson (c # cs) =
     (if isJsonWhite c then lexJson cs
      else if c = CHR ''{'' then consTok TLBrace (lexJson cs)
      else if c = CHR ''}'' then consTok TRBrace (lexJson cs)
      else if c = CHR ''['' then consTok TLBracket (lexJson cs)
      else if c = CHR '']'' then consTok TRBracket (lexJson cs)
      else if c = CHR '':'' then consTok TColon (lexJson cs)
      else if c = CHR '','' then consTok TComma (lexJson cs)
      else if c = CHR 0x22 then
        (case lexString cs [] of
           Inl e \<Rightarrow> Inl e
         | Inr (s, rest) \<Rightarrow> consTok (TScalar (JStr s)) (lexJson rest))
      else if c = CHR ''-'' \<or> isDigit c then
        (case jsonNumber (c # takeWhile isNumChar cs) of
           None \<Rightarrow> Inl SyntaxError
         | Some n \<Rightarrow> consTok (TScalar (JNum n)) (lexJson (dropWhile isNumChar cs)))
      else if startsWith (c # cs) ''true'' then consTok (TScalar (JBool True)) (lexJson (drop 3 cs))
      else if startsWith (c # cs) ''false'' then consTok (TScalar (JBool False)) (lexJson (drop 4 cs))
      else if startsWith (c # cs) ''null'' then consTok (TScalar JNull) (lexJson (drop 3 cs))
      else Inl SyntaxError)"
  by pat_completeness auto
termination
proof (relation "measure length", goal_cases)
  case 1
  show ?case by simp
next
  case (9 c cs x2 x y)
  then have "lexString cs [] = Inr (x, y)" by simp
  from lexString_shorter [OF this] show ?case by simp
next
  case (10 c cs x2)
  show ?case
    by (simp add: le_imp_less_Suc length_dropWhile_le)
qed simp_all

datatype frame = FArr "jsval list" | FObj "(string \<times> jsval) list" "string option"

datatype pstate = PValue | PArrStart | PObjStart | PKey | PColon | PAfter | PDone jsval

text \<open>A repeated key keeps its place and takes the later value.\<close>

fun setMember :: "(string \<times> jsval) list \<Rightarrow> string \<Rightarrow> jsval \<Rightarrow> (string \<times> jsval) list" where
  "setMember [] k v = [(k, v)]"
| "setMember ((k', v') # ms) k v = (if k' = k then (k, v) # ms else (k', v') # setMember ms k v)"

fun complete :: "jsval \<Rightarrow> frame list \<Rightarrow> (pstate \<times> frame list) result" where
  "complete v [] = Inr (PDone v, [])"
| "complete v (FArr xs # st) = Inr (PAfter, FArr (xs @ [v]) # st)"
| "complete v (FObj ms (Some k) # st) = Inr (PAfter, FObj (setMember ms k v) None # st)"
| "complete v (FObj ms None # st) = Inl SyntaxError"

definition startValue :: "token \<Rightarrow> frame list \<Rightarrow> (pstate \<times> frame list) result" where
  "startValue tok st =
     (case tok of
        TScalar v \<Rightarrow> complete v st
      | TLBracket \<Rightarrow> Inr (PArrStart, FArr [] # st)
      | TLBrace \<Rightarrow> Inr (PObjStart, FObj [] None # st)
      | _ \<Rightarrow> Inl SyntaxError)"

definition closeArray :: "frame list \<Rightarrow> (pstate \<times> frame list) result" where
  "closeArray st = (case st of FArr xs # st' \<Rightarrow> complete (JArr xs) st' | _ \<Rightarrow> Inl SyntaxError)"

definition closeObject :: "frame list \<Rightarrow> (pstate \<times> frame list) result" where
  "closeObject st =
     (case st of FObj ms None # st' \<Rightarrow> complete (JObj ms) st' | _ \<Rightarrow> Inl SyntaxError)"

definition setKey :: "token \<Rightarrow> frame list \<Rightarrow> (pstate \<times> frame list) result" where
  "setKey tok st =
     (case (tok, st) of
        (TScalar (JStr k), FObj ms None # st') \<Rightarrow> Inr (PColon, FObj ms (Some k) # st')
      | _ \<Rightarrow> Inl SyntaxError)"

definition parseStep :: "pstate \<times> frame list \<Rightarrow> token \<Rightarrow> (pstate \<times> frame list) result" where
  "parseStep cfg tok =
     (case cfg of
        (PValue, st) \<Rightarrow> startValue tok st
      | (PArrStart, st) \<Rightarrow> (if tok = TRBracket then closeArray st else startValue tok st)
      | (PObjStart, st) \<Rightarrow> (if tok = TRBrace then closeObject st else setKey tok st)
      | (PKey, st) \<Rightarrow> setKey tok st
      | (PColon, st) \<Rightarrow> (if tok = TColon then Inr (PValue, st) else Inl SyntaxError)
      | (PAfter, st) \<Rightarrow>
          (if tok = TComma then
             (case st of
                FArr xs # st' \<Rightarrow> Inr (PValue, st)
              | FObj ms None # st' \<Rightarrow> Inr (PKey, st)
              | _ \<Rightarrow> Inl SyntaxError)
           else if tok = TRBracket then closeArray st
           else if tok = TRBrace then closeObject st
           else Inl SyntaxError)
      | (PDone v, st) \<Rightarrow> Inl SyntaxError)"

fun parseTokens :: "pstate \<times> frame list \<Rightarrow> token list \<Rightarrow> jsval result" where
  "parseTokens cfg [] = (case fst cfg of PDone v \<Rightarrow> Inr v | _ \<Rightarrow> Inl SyntaxError)"
| "parseTokens cfg (t # ts) =
     (case parseStep cfg t of Inl e \<Rightarrow> Inl e | Inr cfg' \<Rightarrow> parseTokens cfg' ts)"

definition jsonParse :: "string \<Rightarrow> jsval result" where
  "jsonParse text = bindE (lexJson text) (parseTokens (PValue, []))"

section \<open>The chat route\<close>

text \<open>
  \<^verbatim>\<open>buildSystemPrompt()\<close> renders a fixed template around two values computed from the
  cache: the number of listed hotels and one line per hotel for the first 100 of them.
  The model keeps these two values and leaves the fixed text out.
\<close>

definition hotelLine :: "jsval \<Rightarrow> string" where
  "hotelLine h = ''- '' @ jsToString (getProp h ''name'') @ '' | region: ''
                 @ jsToString (getProp h ''region'') @ '' | slug: '' @ jsToString (getProp h ''slug'')"

definition buildSystemPrompt :: "cmsCache \<Rightarrow> (nat \<times> string) result" where
  "buildSystemPrompt c =
     bindE (getAllHotels c) (\<lambda>hs. Inr (length hs, joinWith [CHR 0x0A] (map hotelLine (take 100 hs))))"

text \<open>
  Lines 308-314: \<^verbatim>\<open>history.slice(-10).map(...)\<close> followed by the new user turn. Only
  an array has both \<^verbatim>\<open>slice\<close> and \<^verbatim>\<open>map\<close>; a turn that is \<^verbatim>\<open>null\<close> has no
  \<^verbatim>\<open>role\<close> to read.
\<close>

definition forwardTurn :: "jsval \<Rightarrow> jsval result" where
  "forwardTurn msg =
     bindE (getE msg ''role'')
       (\<lambda>role. Inr (JObj [(''role'', role),
                           (''content'', (case getProp msg ''content'' of
                                            JStr s \<Rightarrow> JStr s
                                          | content \<Rightarrow> jsonStringify content))]))"

definition userTurn :: "jsval \<Rightarrow> jsval" where
  "userTurn message = JObj [(''role'', JStr ''user''), (''content'', message)]"

definition buildMessages :: "jsval \<Rightarrow> jsval \<Rightarrow> jsval list result" where
  "buildMessages history message =
     (case history of
        JArr turns \<Rightarrow>
          bindE (mapE forwardTurn (sliceFrom (- 10) turns)) (\<lambda>ts. Inr (ts @ [userTurn message]))
      | _ \<Rightarrow> Inl TypeError)"

text \<open>
  The same lines in the legacy variant of the server, which has no \<^verbatim>\<open>slice\<close> and
  passes the content on as it is:
  \<^verbatim>\<open>history.map(msg => ({ role: msg.role, content: msg.content }))\<close>.
\<close>

definition legacyForwardTurn :: "jsval \<Rightarrow> jsval result" where
  "legacyForwardTurn msg =
     bindE (getE msg ''role'')
       (\<lambda>role. Inr (JObj [(''role'', role), (''content'', getProp msg ''content'')]))"

definition legacyBuildMessages :: "jsval \<Rightarrow> jsval \<Rightarrow> jsval list result" where
  "legacyBuildMessages history message =
     (case history of
        JArr turns \<Rightarrow> bindE (mapE legacyForwardTurn turns) (\<lambda>ts. Inr (ts @ [userTurn message]))
      | _ \<Rightarrow> Inl TypeError)"

text \<open>Line 338: \<^verbatim>\<open>data.content[0]?.text || ''\<close>.\<close>

definition firstElement :: "jsval \<Rightarrow> jsval" where
  "firstElement v =
     (case v of
        JArr xs \<Rightarrow> (case xs of [] \<Rightarrow> JUndefined | x # _ \<Rightarrow> x)
      | JStr s \<Rightarrow> (case s of [] \<Rightarrow> JUndefined | ch # _ \<Rightarrow> JStr [ch])
      | _ \<Rightarrow> getProp v ''0'')"

definition rawResponseOf :: "jsval \<Rightarrow> jsval result" where
  "rawResponseOf data =
     bindE (getE data ''content'')
       (\<lambda>content. if nullish content then Inl TypeError
                   else Inr (jsOr (optProp (firstElement content) ''text'') (JStr '''')))"

text \<open>Lines 344-353: the text handed to \<^verbatim>\<open>JSON.parse\<close>, before its last \<^verbatim>\<open>trim()\<close>.\<close>

definition stripFences :: "string \<Rightarrow> string" where
  "stripFences rawResponse =
     (let cleanJson = trim rawResponse;
          cleanJson = (if startsWith cleanJson ''```json'' then drop 7 cleanJson else cleanJson);
          cleanJson = (if startsWith cleanJson ''```'' then drop 3 cleanJson else cleanJson);
          cleanJson = (if endsWith cleanJson ''```'' then sliceDropEnd 3 cleanJson else cleanJson)
      in cleanJson)"

text \<open>The \<^verbatim>\<open>try\<close> block of lines 342-354 on a string.\<close>

definition stripAndParse :: "string \<Rightarrow> jsval result" where
  "stripAndParse rawResponse = jsonParse (trim (stripFences rawResponse))"

definition fallbackReply :: "string \<Rightarrow> jsval" where
  "fallbackReply rawResponse = JObj
     [(''message'', jsOr (JStr (take 200 rawResponse))
                         (JStr ''Let me help you find the perfect hotel in Portugal.'')),
      (''hotels'', JArr []),
      (''mapAction'', JNull)]"

text \<open>
  Lines 341-363. On a value that is not a string, \<^verbatim>\<open>rawResponse.trim\<close> is not a
  function, and neither is \<^verbatim>\<open>rawResponse.substring\<close> in the \<^verbatim>\<open>catch\<close> block: the
  error leaves both.
\<close>

definition parseReply :: "jsval \<Rightarrow> jsval result" where
  "parseReply rawResponse =
     (case rawResponse of
        JStr s \<Rightarrow>
          (case stripAndParse s of
             Inr parsed \<Rightarrow> Inr parsed
           | Inl OutsideModel \<Rightarrow> Inl OutsideModel
           | Inl e \<Rightarrow> Inr (fallbackReply s))
      | _ \<Rightarrow> Inl TypeError)"

text \<open>Lines 366-368: the slugs of the reply, resolved, without those that gave \<^verbatim>\<open>null\<close>.\<close>

definition hotelCards :: "cmsCache \<Rightarrow> jsval \<Rightarrow> jsval list result" where
  "hotelCards c parsed =
     bindE (getE parsed ''hotels'')
       (\<lambda>hs. (case jsOr hs (JArr []) of
                 JArr slugs \<Rightarrow>
                   bindE (mapE (getHotelBySlug c) slugs) (\<lambda>rs. Inr (filter (\<lambda>h. h \<noteq> JNull) rs))
               | _ \<Rightarrow> Inl TypeError))"

text \<open>Lines 337-375: from the body of a successful completion to the response.\<close>

definition chatResponse :: "cmsCache \<Rightarrow> jsval \<Rightarrow> httpReply result" where
  "chatResponse c data =
     bindE (rawResponseOf data)
       (\<lambda>rawResponse.
          bindE (parseReply rawResponse)
            (\<lambda>parsed.
               bindE (hotelCards c parsed)
                 (\<lambda>cards. Inr (Reply 200 (JObj
                    [(''message'', jsOr (getProp parsed ''message'') (JStr '''')),
                     (''hotels'', JArr cards),
                     (''mapAction'', jsOr (getProp parsed ''mapAction'') JNull),
                     (''usage'', getProp data ''usage'')])))))"

definition chatFailed :: httpReply where
  "chatFailed = Reply 500 (JObj [(''error'', JStr ''Failed to process chat request'')])"

definition stale :: "int \<Rightarrow> cmsCache \<Rightarrow> bool" where
  "stale now c = (case lastFetch c of None \<Rightarrow> True | Some t \<Rightarrow> t = 0 \<or> now - t > CACHE_DURATION)"

text \<open>
  What the handler does with the outcome of the completion request (lines 331-375 and
  the outer \<^verbatim>\<open>catch\<close>).
\<close>

definition completionOutcome :: "cmsCache \<Rightarrow> response \<Rightarrow> httpReply" where
  "completionOutcome c r =
     (case r of
        Rejected \<Rightarrow> chatFailed
      | Response status body \<Rightarrow>
          (case body of
             None \<Rightarrow> chatFailed
           | Some data \<Rightarrow>
               (if \<not> ok status then
                  (if nullish data then chatFailed
                   else Reply status (JObj [(''error'',
                          jsOr (optProp (getProp data ''error'') ''message'') (JStr ''API error''))]))
                else
                  (case chatResponse c data of
                     Inr reply \<Rightarrow> reply
                   | Inl OutsideModel \<Rightarrow> Uncaught OutsideModel
                   | Inl e \<Rightarrow> chatFailed))))"

text \<open>
  \<^verbatim>\<open>POST /api/chat\<close> with the request body \<open>body\<close>. \<open>now\<close> is the clock at the
  staleness test, \<open>later\<close> the clock when a refresh stamps the cache. The result is
  the response, the cache and the request log; \<open>None\<close> when the refresh does not
  return.
\<close>

definition apiChat ::
  "network \<Rightarrow> env \<Rightarrow> int \<Rightarrow> int \<Rightarrow> cmsCache \<Rightarrow> request list \<Rightarrow> jsval
     \<Rightarrow> (httpReply \<times> cmsCache \<times> request list) option" where
  "apiChat net e now later c log body =
     (if \<not> truthy (envVal (ANTHROPIC_API_KEY e)) then
        Some (Reply 500 (JObj [(''error'', JStr ''Anthropic API key not configured'')]), c, log)
      else if nullish body then Some (Uncaught TypeError, c, log)
      else if \<not> truthy (getProp body ''message'') then
        Some (Reply 400 (JObj [(''error'', JStr ''Message is required'')]), c, log)
      else
        (case (if stale now c then refreshCMSCache net e later c log else Some (c, log, None)) of
           None \<Rightarrow> None
         | Some (c1, log1, err) \<Rightarrow>
             (case bindE (buildMessages (case getProp body ''history'' of
                                           JUndefined \<Rightarrow> JArr []
                                         | history \<Rightarrow> history)
                                        (getProp body ''message''))
                     (\<lambda>messages. bindE (buildSystemPrompt c1) (\<lambda>system. Inr (messages, system))) of
                Inl e' \<Rightarrow> Some (chatFailed, c1, log1)
              | Inr (messages, system) \<Rightarrow>
                  Some (completionOutcome c1
                          (net (length log1)
                             (MessagesReq (jsToString (envVal (ANTHROPIC_API_KEY e))) system messages)),
                        c1,
                        log1 @ [MessagesReq (jsToString (envVal (ANTHROPIC_API_KEY e))) system
                                  messages]))))"

section \<open>Notions used in the properties\<close>

text \<open>The presence flag of a credential, as \<^verbatim>\<open>!!TOKEN\<close> computes it.\<close>

definition configured :: "string option \<Rightarrow> bool" where
  "configured v = truthy (envVal v)"

text \<open>
  The values that \<^verbatim>\<open>parseFloat\<close> receives on lines 149-150 and 168-169:
  \<^verbatim>\<open>f.latitude || f.lat\<close> and \<^verbatim>\<open>f.longitude || f.lng || f.lon\<close>.
\<close>

definition latSource :: "jsval \<Rightarrow> jsval" where
  "latSource f = jsOr (getProp f ''latitude'') (getProp f ''lat'')"


text \<open>An item carries a truthy \<^verbatim>\<open>archived\<close> or \<^verbatim>\<open>is-closed\<close> flag.\<close>

definition flagged :: "jsval \<Rightarrow> bool" where
  "flagged h = (truthy (getProp (getProp h ''fieldData'') ''archived'')
                \<or> truthy (getProp (getProp h ''fieldData'') ''is-closed''))"

text \<open>
  A remote CMS that holds the items \<open>xs\<close> of a collection and serves the page asked
  for: \<open>limit\<close> items from \<open>offset\<close> on. With \<open>failure = Some (k, status)\<close> it
  answers request number \<open>k\<close> (counted from 0) with \<open>status\<close> and no JSON body.
\<close>

definition servedPage :: "jsval list \<Rightarrow> nat \<Rightarrow> nat \<Rightarrow> response" where
  "servedPage xs offset limit =
     Response 200 (Some (JObj [(''items'', JArr (take limit (drop offset xs)))]))"

definition cmsServer :: "jsval list \<Rightarrow> (nat \<times> nat) option \<Rightarrow> network" where
  "cmsServer xs failure n req =
     (case req of
        ItemsReq collectionId offset limit token \<Rightarrow>
          (case failure of
             None \<Rightarrow> servedPage xs offset limit
           | Some (k, status) \<Rightarrow>
               if n = k then Response status None else servedPage xs offset limit)
      | _ \<Rightarrow> Rejected)"

text \<open>The first \<open>n\<close> page requests for a collection, from offset \<open>start\<close> on.\<close>

definition pageRequests :: "string \<Rightarrow> string \<Rightarrow> nat \<Rightarrow> nat \<Rightarrow> request list" where
  "pageRequests collectionId token start n =
     map (\<lambda>i. ItemsReq collectionId (start + i * pageLimit) pageLimit token) [0..<n]"

section \<open>Sample data\<close>

definition sampleEnv :: env where
  "sampleEnv = \<lparr> WEBFLOW_API_TOKEN = Some ''wf-token'', WEBFLOW_SITE_ID = None,
                  ANTHROPIC_API_KEY = Some ''sk-key'', MAPBOX_TOKEN = Some ''pk.map'' \<rparr>"

definition otherSecretsEnv :: env where
  "otherSecretsEnv = \<lparr> WEBFLOW_API_TOKEN = Some ''another-token'', WEBFLOW_SITE_ID = None,
                        ANTHROPIC_API_KEY = Some ''another-key'', MAPBOX_TOKEN = Some ''pk.map'' \<rparr>"

definition memmoFields :: jsval where
  "memmoFields = JObj [(''name'', JStr ''Memmo Alfama''), (''slug'', JStr ''memmo-alfama''),
                       (''region'', JStr ''Lisbon'')]"

definition memmoItem :: jsval where
  "memmoItem = JObj [(''id'', JStr ''i1''), (''fieldData'', memmoFields)]"

definition memmoCache :: cmsCache where
  "memmoCache = \<lparr> hotels = [memmoItem], regions = [], collections = [], lastFetch = Some 1000 \<rparr>"


definition archivedFields :: jsval where
  "archivedFields = JObj [(''name'', JStr ''Old Inn''), (''slug'', JStr ''old-inn''),
                          (''latitude'', JStr ''38.7''), (''longitude'', JStr ''-9.1''),
                          (''archived'', JBool True)]"

definition archivedCache :: cmsCache where
  "archivedCache = \<lparr> hotels = [JObj [(''fieldData'', archivedFields)]], regions = [],
                      collections = [], lastFetch = Some 1000 \<rparr>"

definition bookableFields :: jsval where
  "bookableFields = JObj [(''name'', JStr ''Casa''), (''slug'', JStr ''casa''),
                          (''booking-url'', JStr ''https://book.example/casa'')]"

definition equatorFields :: jsval where
  "equatorFields = JObj [(''name'', JStr ''Linha''), (''slug'', JStr ''linha''),
                         (''latitude'', JStr ''0''), (''longitude'', JStr ''-9.14'')]"

definition equatorCache :: cmsCache where
  "equatorCache = \<lparr> hotels = [JObj [(''fieldData'', equatorFields)]], regions = [],
                     collections = [], lastFetch = Some 1000 \<rparr>"

text \<open>A text wrapped in a code fence: the opening marker, the text, the closing marker.\<close>

definition fenced :: "string \<Rightarrow> string \<Rightarrow> string" where
  "fenced opening t = opening @ t @ ''```''"

text \<open>A turn of the conversation as the caller sends it: a role and a text.\<close>

definition chatTurn :: "string \<times> string \<Rightarrow> jsval" where
  "chatTurn turn = JObj [(''role'', JStr (fst turn)), (''content'', JStr (snd turn))]"

text \<open>
  A chat-completion endpoint that answers every request with the text \<open>reply\<close>, and the
  body of a completion with that text.
\<close>

definition completionBody :: "string \<Rightarrow> jsval" where
  "completionBody reply = JObj
     [(''content'', JArr [JObj [(''type'', JStr ''text''), (''text'', JStr reply)]]),
      (''usage'', JObj [(''input_tokens'', JNum (Dec 12 0)), (''output_tokens'', JNum (Dec 34 0))])]"

definition completionNet :: "string \<Rightarrow> network" where
  "completionNet reply n req =
     (case req of
        MessagesReq key system messages \<Rightarrow> Response 200 (Some (completionBody reply))
      | _ \<Rightarrow> Rejected)"



section \<open>Properties\<close>

subsection \<open>Auxiliary facts\<close>

lemma getProp_obj_simps [simp]:
  "getProp (JObj []) k = JUndefined"
  "getProp (JObj ((k', v) # kvs)) k = (if k' = k then v else getProp (JObj kvs) k)"
  by (simp_all add: getProp_def)

lemma jsOr_undefined [simp]: "jsOr JUndefined b = b" "jsOr JNull b = b"
  by (simp_all add: jsOr_def)

lemma jsOr_truthy [simp]: "truthy a \<Longrightarrow> jsOr a b = a"
  by (simp add: jsOr_def)

lemma truthy_jsOr [simp]: "truthy d \<Longrightarrow> truthy (jsOr a d)"
  by (simp add: jsOr_def)

lemma jsOr_default_again [simp]: "jsOr (jsOr a d) d = jsOr a d"
  by (simp add: jsOr_def)

lemma jsOr_default_undefined [simp]: "jsOr (jsOr (jsOr a d) JUndefined) d = jsOr a d"
  by (simp add: jsOr_def)

lemma optProp_undefined [simp]: "optProp JUndefined k = JUndefined"
  by (simp add: optProp_def nullish_def)

lemma ok_200 [simp]: "ok 200"
  by (simp add: ok_def)

text \<open>
  A number that a parser returns is in the form in which the model keeps numbers: it
  denotes the double whose digits it is. So a parsed coordinate parses to itself.
\<close>

lemma normMant_stop:
  "\<not> (m \<noteq> 0 \<and> m mod 10 = 0) \<Longrightarrow> normMant m e = (m, if m = 0 then 0 else e)"
  by (subst normMant.simps) auto

lemma normMant_idem: "normMant (fst (normMant m e)) (snd (normMant m e)) = normMant m e"
proof (induction m e rule: normMant.induct)
  case (1 m e)
  show ?case
  proof (cases "m \<noteq> 0 \<and> m mod 10 = 0")
    case True
    then have "normMant m e = normMant (m div 10) (e + 1)"
      by (subst normMant.simps) simp
    with 1 True show ?thesis by simp
  next
    case False
    then show ?thesis
      by (simp add: normMant_stop)
  qed
qed

lemma normMant_nonneg: "0 \<le> m \<Longrightarrow> 0 \<le> fst (normMant m e)"
proof (induction m e rule: normMant.induct)
  case (1 m e)
  show ?case
  proof (cases "m \<noteq> 0 \<and> m mod 10 = 0")
    case True
    then have "normMant m e = normMant (m div 10) (e + 1)"
      by (subst normMant.simps) simp
    moreover from 1(2) have "0 \<le> m div 10"
      by simp
    ultimately show ?thesis
      using 1(1) True by simp
  next
    case False
    with 1(2) show ?thesis
      by (simp add: normMant_stop)
  qed
qed

lemma decToBinary64_zero: "decToBinary64 0 0 = Zero"
  by code_simp

lemma normMant_zero: "normMant 0 e = (0, 0)"
  by (simp add: normMant_stop)

lemma shortestFrom_readsBack:
  "shortestFrom v n d x ks = Some c \<Longrightarrow> readsBack v c"
  by (induction ks) (auto simp: Let_def split: prod.splits if_splits)

lemma shortestDigits_readsBack: "shortestDigits v = Some c \<Longrightarrow> readsBack v c"
  unfolding shortestDigits_def
  by (cases v) (auto split: prod.splits simp del: shortestFrom.simps dest: shortestFrom_readsBack)

lemma roundDec_zero: "roundDec 0 0 = Dec 0 0"
  by (simp add: roundDec_def normMant_zero decToBinary64_zero)

lemma roundDec_fixed [simp]: "normNum (roundDec m e) = roundDec m e"
proof -
  obtain a x where ax: "normMant \<bar>m\<bar> e = (a, x)"
    by (cases "normMant \<bar>m\<bar> e")
  from normMant_idem [of "\<bar>m\<bar>" e] ax have stable: "normMant a x = (a, x)"
    by simp
  from normMant_nonneg [of "\<bar>m\<bar>" e] ax have a0: "0 \<le> a"
    by simp
  show ?thesis
  proof (cases "decToBinary64 a x")
    case Zero
    with ax have "roundDec m e = Dec 0 0"
      by (simp add: roundDec_def)
    then show ?thesis
      by (simp add: roundDec_zero)
  next
    case Overflow
    with ax show ?thesis
      by (simp add: roundDec_def)
  next
    case (Finite b p)
    show ?thesis
    proof (cases "shortestDigits (Finite b p)")
      case None
      have "a \<noteq> 0"
      proof
        assume "a = 0"
        with stable have "x = 0"
          by (simp add: normMant_zero)
        with \<open>a = 0\<close> Finite show False
          by (simp add: decToBinary64_zero)
      qed
      with a0 have pos: "0 < a"
        by simp
      from ax Finite None have r: "roundDec m e = Dec (if m < 0 then - a else a) x"
        by (simp add: roundDec_def)
      from pos have abs: "\<bar>if m < 0 then - a else a\<bar> = a"
        by simp
      from pos have sgn: "(if m < 0 then - a else a) < 0 \<longleftrightarrow> m < 0"
        by simp
      have "roundDec (if m < 0 then - a else a) x = Dec (if m < 0 then - a else a) x"
        unfolding roundDec_def abs sgn using stable Finite None by simp
      with r show ?thesis
        by simp
    next
      case (Some c)
      obtain s t where c: "c = (s, t)"
        by (cases c)
      from shortestDigits_readsBack [OF Some] c
      have pos: "0 < s" and stable': "normMant s t = (s, t)" and reads: "decToBinary64 s t = Finite b p"
        by (simp_all add: readsBack_def)
      from ax Finite Some c have r: "roundDec m e = Dec (if m < 0 then - s else s) t"
        by (simp add: roundDec_def)
      from pos have abs: "\<bar>if m < 0 then - s else s\<bar> = s"
        by simp
      from pos have sgn: "(if m < 0 then - s else s) < 0 \<longleftrightarrow> m < 0"
        by simp
      have "roundDec (if m < 0 then - s else s) t = Dec (if m < 0 then - s else s) t"
        unfolding roundDec_def abs sgn using stable' reads Some c by simp
      with r show ?thesis
        by simp
    qed
  qed
qed

lemma normNum_idem [simp]: "normNum (normNum n) = normNum n"
  by (cases n) simp_all

lemma normNum_parseFloatStr [simp]: "normNum (parseFloatStr s) = parseFloatStr s"
  by (simp add: parseFloatStr_def parseUnsigned_def Let_def split: list.splits)

lemma normNum_parseFloat [simp]: "normNum (parseFloat v) = parseFloat v"
  by (cases v) (simp_all add: parseFloat_def)

lemma parseFloat_num: "parseFloat (JNum n) = normNum n"
  by (simp add: parseFloat_def)

lemma parseFloat_null: "parseFloat JNull = NaN"
  by code_simp

lemma parseFloat_undefined: "parseFloat JUndefined = NaN"
  by code_simp

lemma coordinate_again [simp]:
  "jsOr (JNum (parseFloat (jsOr (JNum (parseFloat x)) JNull))) JNull
     = jsOr (JNum (parseFloat x)) JNull"
  by (simp add: jsOr_def parseFloat_null parseFloat_num)

lemma coordinate_again_undefined [simp]:
  "jsOr (JNum (parseFloat (jsOr (jsOr (JNum (parseFloat x)) JNull) JUndefined))) JNull
     = jsOr (JNum (parseFloat x)) JNull"
  by (simp add: jsOr_def parseFloat_undefined parseFloat_num)

subsection \<open>The built-in functions on sample inputs\<close>

lemma parseFloat_decimal: "parseFloat (JStr ''38.7223'') = Dec 387223 (- 4)"
  by code_simp

lemma parseFloat_prefix: "parseFloat (JStr ''  -9.1390 W'') = Dec (- 9139) (- 3)"
  by code_simp

lemma parseFloat_exponent: "parseFloat (JStr ''1.5e3'') = Dec 15 2"
  by code_simp

lemma parseFloat_no_number: "parseFloat (JStr ''north'') = NaN"
  by code_simp

lemma parseFloat_array: "parseFloat (JArr [JStr ''12'', JNull]) = Dec 12 0"
  by code_simp

lemma numToString_fraction: "numToString (Dec 387223 (- 4)) = ''38.7223''"
  by code_simp

lemma numToString_large: "numToString (Dec 1 21) = ''1e+21''"
  by code_simp

lemma numToString_small: "numToString (Dec (- 15) (- 8)) = ''-1.5e-7''"
  by code_simp

lemma jsonParse_reply:
  \<open>jsonParse ''{"message":"Hi","hotels":["a-b"],"mapAction":{"type":"flyTo","lat":38.72,"zoom":12}}''
     = Inr (JObj [(''message'', JStr ''Hi''), (''hotels'', JArr [JStr ''a-b'']),
                  (''mapAction'', JObj [(''type'', JStr ''flyTo''), (''lat'', JNum (Dec 3872 (- 2))),
                                        (''zoom'', JNum (Dec 12 0))])])\<close>
  by code_simp

lemma jsonParse_trailing_comma: \<open>jsonParse ''{"hotels":["a-b",]}'' = Inl SyntaxError\<close>
  by code_simp

lemma jsonParse_empty: "jsonParse [] = Inl SyntaxError"
  by code_simp

lemma jsonParse_prose: "jsonParse ''Here are three hotels'' = Inl SyntaxError"
  by code_simp

subsection \<open>The configuration route\<close>

lemma configured_iff: "configured v \<longleftrightarrow> (\<exists>s. v = Some s \<and> s \<noteq> [])"
  by (cases v) (simp_all add: configured_def envVal_def)

text \<open>
  C9. Two runs of \<^verbatim>\<open>GET /api/config\<close> over the same cache whose environments agree on
  the map token and on whether the CMS credential and the chat-completion credential
  are configured (set to a non-empty string, as \<open>configured_iff\<close> says) give the same
  response: the body depends on the two secrets through their presence flags only, so
  it cannot hold their values.
\<close>

theorem config_shows_presence_only:
  assumes "MAPBOX_TOKEN e1 = MAPBOX_TOKEN e2"
    and "configured (WEBFLOW_API_TOKEN e1) = configured (WEBFLOW_API_TOKEN e2)"
    and "configured (ANTHROPIC_API_KEY e1) = configured (ANTHROPIC_API_KEY e2)"
  shows "apiConfig e1 c = apiConfig e2 c"
  using assms by (simp add: apiConfig_def configured_def)

theorem config_shows_presence_only_witness:
  "WEBFLOW_API_TOKEN sampleEnv \<noteq> WEBFLOW_API_TOKEN otherSecretsEnv
   \<and> ANTHROPIC_API_KEY sampleEnv \<noteq> ANTHROPIC_API_KEY otherSecretsEnv
   \<and> apiConfig sampleEnv memmoCache = apiConfig otherSecretsEnv memmoCache
   \<and> apiConfig sampleEnv memmoCache = Reply 200 (JObj
        [(''mapboxToken'', JStr ''pk.map''), (''hasWebflow'', JBool True),
         (''hasClaude'', JBool True), (''hotelCount'', JNum (Dec 1 0))])"
proof -
  have m: "MAPBOX_TOKEN sampleEnv = MAPBOX_TOKEN otherSecretsEnv"
    by (simp add: sampleEnv_def otherSecretsEnv_def)
  have w: "configured (WEBFLOW_API_TOKEN sampleEnv) = configured (WEBFLOW_API_TOKEN otherSecretsEnv)"
    by (simp add: sampleEnv_def otherSecretsEnv_def configured_iff)
  have a: "configured (ANTHROPIC_API_KEY sampleEnv) = configured (ANTHROPIC_API_KEY otherSecretsEnv)"
    by (simp add: sampleEnv_def otherSecretsEnv_def configured_iff)
  have body: "apiConfig sampleEnv memmoCache = Reply 200 (JObj
        [(''mapboxToken'', JStr ''pk.map''), (''hasWebflow'', JBool True),
         (''hasClaude'', JBool True), (''hotelCount'', JNum (Dec 1 0))])"
    by code_simp
  from config_shows_presence_only [OF m w a, of memmoCache] body show ?thesis
    by (simp add: sampleEnv_def otherSecretsEnv_def)
qed

subsection \<open>Listings and lookups\<close>

lemma filterE_without:
  assumes "\<And>x. x \<in> set xs \<Longrightarrow> q x \<Longrightarrow> p x = Inr False"
  shows "filterE p (filter (\<lambda>x. \<not> q x) xs) = filterE p xs"
  using assms
proof (induction xs)
  case Nil
  then show ?case by simp
next
  case (Cons x xs)
  then have ih: "filterE p (filter (\<lambda>x. \<not> q x) xs) = filterE p xs"
    by simp
  show ?case
  proof (cases "q x")
    case True
    with Cons.prems have "p x = Inr False" by simp
    with True ih show ?thesis
      by (simp split: sum.splits)
  next
    case False
    with ih show ?thesis
      by (simp split: sum.splits)
  qed
qed

lemma flagged_notArchived: "flagged h \<Longrightarrow> notArchived h = Inr False"
  by (cases h) (auto simp: flagged_def notArchived_def bindE_def getE_def nullish_def getProp_def)

text \<open>
  The two listings do filter: taking the flagged items out of the cache changes neither
  \<^verbatim>\<open>getAllHotels()\<close> nor the marker listing, whatever the other fields hold.
\<close>

lemma getAllHotels_ignores_flagged:
  "getAllHotels (c\<lparr>hotels := filter (\<lambda>h. \<not> flagged h) (hotels c)\<rparr>) = getAllHotels c"
  by (simp add: getAllHotels_def filterE_without flagged_notArchived)

lemma hotelMarkers_ignores_flagged:
  "hotelMarkers (c\<lparr>hotels := filter (\<lambda>h. \<not> flagged h) (hotels c)\<rparr>) = hotelMarkers c"
  by (simp add: hotelMarkers_def filterE_without flagged_notArchived)

text \<open>
  C2. An item flagged \<^verbatim>\<open>archived\<close> or \<^verbatim>\<open>is-closed\<close> is absent from the full listing
  and from the marker listing (the two lemmas above), but not from the lookup by slug:
  \<^verbatim>\<open>getHotelBySlug\<close> searches every cached item and does not apply the filter. With
  one archived hotel in the cache, the full listing and the marker listing are empty,
  while \<^verbatim>\<open>GET /api/hotels/old-inn\<close> answers 200 with the record of the archived hotel
  and the chat route resolves the slug to the same record.
\<close>

theorem archived_hotel_served_by_slug:
  "flagged (JObj [(''fieldData'', archivedFields)])
   \<and> apiHotels archivedCache = Reply 200 (JArr [])
   \<and> apiHotelMarkers archivedCache = Reply 200 (JArr [])
   \<and> apiHotelBySlug archivedCache ''old-inn'' = Reply 200 (slugRecord archivedFields)
   \<and> hotelCards archivedCache (JObj [(''hotels'', JArr [JStr ''old-inn''])])
       = Inr [slugRecord archivedFields]
   \<and> getProp (slugRecord archivedFields) ''name'' = JStr ''Old Inn''"
  by code_simp

subsection \<open>The field normaliser\<close>

lemma listRecord_again:
  "listRecord (listRecord f) = JObj
     [(''name'', getProp (listRecord f) ''name''),
      (''slug'', getProp (listRecord f) ''slug''),
      (''region'', getProp (listRecord f) ''region''),
      (''description'', getProp (listRecord f) ''description''),
      (''lat'', getProp (listRecord f) ''lat''),
      (''lng'', getProp (listRecord f) ''lng''),
      (''image'', JStr ''''),
      (''bookingUrl'', JStr ''''),
      (''url'', getProp (listRecord f) ''url'')]"
  by (simp add: listRecord_def)

lemma slugRecord_again:
  "slugRecord (slugRecord f) = JObj
     [(''name'', getProp (slugRecord f) ''name''),
      (''slug'', getProp (slugRecord f) ''slug''),
      (''region'', getProp (slugRecord f) ''region''),
      (''description'', getProp (slugRecord f) ''description''),
      (''lat'', getProp (slugRecord f) ''lat''),
      (''lng'', getProp (slugRecord f) ''lng''),
      (''image'', JStr ''''),
      (''bookingUrl'', JStr ''''),
      (''rooms'', getProp (slugRecord f) ''rooms''),
      (''url'', getProp (slugRecord f) ''url'')]"
  by (simp add: slugRecord_def)

text \<open>
  C8, as the code has it. The server has no function of its own for the normaliser: the
  record is built by the object literal of \<^verbatim>\<open>getAllHotels\<close> and by that of
  \<^verbatim>\<open>getHotelBySlug\<close>. Applying either to its own output keeps \<open>name\<close>, \<open>slug\<close>,
  \<open>region\<close>, \<open>description\<close>, \<open>lat\<close>, \<open>lng\<close>, \<open>url\<close> (and \<open>rooms\<close>), and
  resets \<open>image\<close> and \<open>bookingUrl\<close> to the empty string: their values are read
  from the CMS keys (\<^verbatim>\<open>cover-image\<close>, \<^verbatim>\<open>booking-url\<close>, ...), which the output does
  not carry.
\<close>

theorem normaliser_twice:
  "listRecord (listRecord f) = JObj
     [(''name'', getProp (listRecord f) ''name''),
      (''slug'', getProp (listRecord f) ''slug''),
      (''region'', getProp (listRecord f) ''region''),
      (''description'', getProp (listRecord f) ''description''),
      (''lat'', getProp (listRecord f) ''lat''),
      (''lng'', getProp (listRecord f) ''lng''),
      (''image'', JStr ''''),
      (''bookingUrl'', JStr ''''),
      (''url'', getProp (listRecord f) ''url'')]
   \<and> slugRecord (slugRecord f) = JObj
     [(''name'', getProp (slugRecord f) ''name''),
      (''slug'', getProp (slugRecord f) ''slug''),
      (''region'', getProp (slugRecord f) ''region''),
      (''description'', getProp (slugRecord f) ''description''),
      (''lat'', getProp (slugRecord f) ''lat''),
      (''lng'', getProp (slugRecord f) ''lng''),
      (''image'', JStr ''''),
      (''bookingUrl'', JStr ''''),
      (''rooms'', getProp (slugRecord f) ''rooms''),
      (''url'', getProp (slugRecord f) ''url'')]"
  using listRecord_again [of f] slugRecord_again [of f] by (rule conjI)

text \<open>
  C8 as stated fails: a hotel with a booking link loses it on the second application.
\<close>

theorem normaliser_not_idempotent:
  "getProp (listRecord bookableFields) ''bookingUrl'' = JStr ''https://book.example/casa''
   \<and> getProp (listRecord (listRecord bookableFields)) ''bookingUrl'' = JStr ''''
   \<and> listRecord (listRecord bookableFields) \<noteq> listRecord bookableFields
   \<and> slugRecord (slugRecord bookableFields) \<noteq> slugRecord bookableFields"
  by (simp add: bookableFields_def listRecord_def slugRecord_def)



text \<open>
  A remark on the marker route of the legacy variant: it builds its own record from the
  raw field values, without \<^verbatim>\<open>parseFloat\<close>, so it lists an item whose latitude is
  the string \<^verbatim>\<open>"0"\<close> (a non-empty string is truthy).
\<close>

lemma legacy_markers_read_raw_values:
  "numIsZero (parseFloat (latSource equatorFields))
   \<and> apiHotelMarkers equatorCache = Reply 200 (JArr [JObj
        [(''name'', JStr ''Linha''), (''slug'', JStr ''linha''), (''region'', JStr ''Portugal''),
         (''lat'', JStr ''0''), (''lng'', JStr ''-9.14''), (''image'', JUndefined)]])"
  by code_simp

subsection \<open>Paging through a collection\<close>

lemma pageRequests_Suc:
  "pageRequests cid tok start (Suc n) =
     ItemsReq cid start pageLimit tok # pageRequests cid tok (start + pageLimit) n"
proof -
  have "[0..<Suc n] = 0 # map Suc [0..<n]"
    by (simp add: upt_conv_Cons map_Suc_upt del: upt_Suc)
  then show ?thesis
    by (simp add: pageRequests_def comp_def add.assoc del: upt_Suc)
qed

lemma length_pageRequests [simp]: "length (pageRequests cid tok start n) = n"
  by (simp add: pageRequests_def)

lemma pageItems_served [simp]: "pageItems (JObj [(''items'', JArr ys)]) = Inr ys"
  by (simp add: pageItems_def bindE_def getE_def nullish_def jsOr_def spreadItems_def)

lemma hasMore_served [simp]:
  "hasMorePages (JObj [(''items'', JArr ys)]) \<longleftrightarrow> length ys = pageLimit"
  by (simp add: hasMorePages_def)

lemma fetchPages_served:
  "fetchPages (cmsServer xs None) tok cid off items log =
     Some (Inr (items @ drop off xs),
           log @ pageRequests cid tok off ((length xs - off) div pageLimit + 1))"
proof (induction "length xs - off" arbitrary: off items log rule: less_induct)
  case less
  let ?page = "take pageLimit (drop off xs)"
  show ?case
  proof (cases "length ?page = pageLimit")
    case True
    then have ge: "pageLimit \<le> length xs - off"
      by simp
    then have lt: "length xs - (off + pageLimit) < length xs - off"
      by (simp add: pageLimit_def)
    have cnt: "(length xs - off) div pageLimit = Suc ((length xs - (off + pageLimit)) div pageLimit)"
      using ge by (simp add: pageLimit_def le_div_geq)
    have app: "?page @ drop (off + pageLimit) xs = drop off xs"
      by (metis add.commute append_take_drop_id drop_drop)
    show ?thesis
      apply (subst fetchPages.simps)
      using True less(1)[OF lt, of "items @ ?page" "log @ [ItemsReq cid off pageLimit tok]"]
      apply (simp add: cmsServer_def servedPage_def cnt pageRequests_Suc [of _ _ off] app)
      done
  next
    case False
    then have short: "length xs - off < pageLimit"
      by simp
    then have all: "?page = drop off xs"
      by simp
    show ?thesis
      apply (subst fetchPages.simps)
      using False short
      apply (simp add: cmsServer_def servedPage_def pageRequests_def all)
      done
  qed
qed

lemma fetchPages_failing:
  assumes "\<not> ok status" and "length log \<le> k"
  shows "fetchPages (cmsServer xs (Some (k, status))) tok cid off items log =
     Some (Inr (items @ take ((k - length log) * pageLimit) (drop off xs)),
           log @ pageRequests cid tok off
                   (min (k - length log) ((length xs - off) div pageLimit) + 1))"
  using assms(2)
proof (induction "k - length log" arbitrary: off items log)
  case 0
  then have "length log = k" by simp
  then show ?case
    using assms(1)
    by (subst fetchPages.simps) (simp add: cmsServer_def pageRequests_def)
next
  case (Suc d)
  let ?page = "take pageLimit (drop off xs)"
  let ?log = "log @ [ItemsReq cid off pageLimit tok]"
  from Suc(2) have lt: "length log < k" and d: "d = k - length ?log" and le: "length ?log \<le> k"
    by simp_all
  have kd: "k - length log = Suc d" and kd': "k - Suc (length log) = d"
    using Suc(2) by simp_all
  show ?case
  proof (cases "length ?page = pageLimit")
    case True
    then have ge: "pageLimit \<le> length xs - off"
      by simp
    have cnt: "(length xs - off) div pageLimit = Suc ((length xs - (off + pageLimit)) div pageLimit)"
      using ge by (simp add: pageLimit_def le_div_geq)
    have app: "?page @ take (d * pageLimit) (drop (off + pageLimit) xs)
                 = take (Suc d * pageLimit) (drop off xs)"
      by (simp add: take_add add.commute)
    have ih: "fetchPages (cmsServer xs (Some (k, status))) tok cid (off + pageLimit) (items @ ?page) ?log =
       Some (Inr ((items @ ?page) @ take ((k - length ?log) * pageLimit) (drop (off + pageLimit) xs)),
             ?log @ pageRequests cid tok (off + pageLimit)
                (min (k - length ?log) ((length xs - (off + pageLimit)) div pageLimit) + 1))"
      using Suc(1)[OF d le] .
    show ?thesis
      apply (subst fetchPages.simps)
      using True lt ih app
      apply (simp add: cmsServer_def servedPage_def cnt kd kd' pageRequests_Suc [of _ _ off])
      done
  next
    case False
    then have short: "length xs - off < pageLimit"
      by simp
    then have all: "?page = drop off xs"
      by simp
    have "length (drop off xs) \<le> Suc d * pageLimit"
      using short by (simp add: pageLimit_def)
    then have tk: "take (Suc d * pageLimit) (drop off xs) = drop off xs"
      by (rule take_all)
    show ?thesis
      apply (subst fetchPages.simps)
      using False short lt tk
      apply (simp add: cmsServer_def servedPage_def pageRequests_def all kd)
      done
  qed
qed

text \<open>A rejected \<^verbatim>\<open>fetch\<close>, unlike a status outside 200-299, leaves the loop as an error.\<close>

lemma fetchPages_rejected:
  "net (length log) (ItemsReq cid off pageLimit tok) = Rejected \<Longrightarrow>
   fetchPages net tok cid off items log = Some (Inl NetworkError, log @ [ItemsReq cid off pageLimit tok])"
  by (subst fetchPages.simps) simp

text \<open>
  C4, as the code has it. Against a CMS that serves the \<open>N\<close> items \<open>xs\<close> of a
  collection in pages of 100, \<^verbatim>\<open>fetchAllCollectionItems\<close> returns \<open>xs\<close> and issues
  \<open>N div 100 + 1\<close> page requests, at the offsets 0, 100, 200, ...: the loop ends on
  the first page with fewer than 100 items, which is an empty page when \<open>N\<close> is a
  multiple of 100. When request number \<open>k\<close> comes back with a status outside
  200-299, the loop ends there without raising: the result is the first \<open>k\<close> pages,
  after \<open>min k (N div 100) + 1\<close> requests.
\<close>

theorem fetchAll_pages:
  "fetchAllCollectionItems (cmsServer xs None) tok cid [] =
     Some (Inr xs, pageRequests cid tok 0 (length xs div pageLimit + 1))
   \<and> length (pageRequests cid tok 0 (length xs div pageLimit + 1)) = length xs div 100 + 1
   \<and> (\<not> ok status \<longrightarrow>
        fetchAllCollectionItems (cmsServer xs (Some (k, status))) tok cid [] =
          Some (Inr (take (k * pageLimit) xs),
                pageRequests cid tok 0 (min k (length xs div pageLimit) + 1)))"
  using fetchPages_served [of xs tok cid 0 "[]" "[]"]
    fetchPages_failing [of status "[]" k xs tok cid 0 "[]"]
  by (simp add: fetchAllCollectionItems_def pageLimit_def)

theorem fetchAll_pages_witness:
  "\<not> ok 503
   \<and> fetchAllCollectionItems (cmsServer (replicate 250 memmoItem) (Some (1, 503))) ''t'' ''c'' [] =
       Some (Inr (replicate 100 memmoItem), [ItemsReq ''c'' 0 100 ''t'', ItemsReq ''c'' 100 100 ''t''])
   \<and> fetchAllCollectionItems (cmsServer (replicate 250 memmoItem) None) ''t'' ''c'' [] =
       Some (Inr (replicate 250 memmoItem),
             [ItemsReq ''c'' 0 100 ''t'', ItemsReq ''c'' 100 100 ''t'', ItemsReq ''c'' 200 100 ''t''])"
proof -
  have nok: "\<not> ok 503"
    by (simp add: ok_def)
  have reqs:
    "pageRequests ''c'' ''t'' 0 (Suc (Suc 0)) = [ItemsReq ''c'' 0 100 ''t'', ItemsReq ''c'' 100 100 ''t'']"
    "pageRequests ''c'' ''t'' 0 3 =
       [ItemsReq ''c'' 0 100 ''t'', ItemsReq ''c'' 100 100 ''t'', ItemsReq ''c'' 200 100 ''t'']"
    by (simp_all add: pageRequests_def pageLimit_def numeral_3_eq_3)
  have tk: "take 100 (replicate 250 memmoItem) = replicate 100 memmoItem"
    by simp
  from fetchAll_pages [of "replicate 250 memmoItem" "''t''" "''c''" 503 1] nok reqs tk
  show ?thesis
    by (simp add: pageLimit_def)
qed

text \<open>
  C4 as stated fails on the count: for 100 items the claim gives one request
  (\<open>ceil (100 / 100)\<close>), and the loop issues two, the second for the empty page.
\<close>

theorem fetchAll_full_page_needs_another_request:
  "fetchAllCollectionItems (cmsServer (replicate 100 memmoItem) None) ''t'' ''c'' [] =
     Some (Inr (replicate 100 memmoItem), [ItemsReq ''c'' 0 100 ''t'', ItemsReq ''c'' 100 100 ''t''])
   \<and> (100 + 99) div 100 = (1 :: nat)"
proof -
  have reqs:
    "pageRequests ''c'' ''t'' 0 (Suc (Suc 0)) = [ItemsReq ''c'' 0 100 ''t'', ItemsReq ''c'' 100 100 ''t'']"
    by (simp add: pageRequests_def pageLimit_def)
  from fetchPages_served [of "replicate 100 memmoItem" "''t''" "''c''" 0 "[]" "[]"] reqs
  show ?thesis
    by (simp add: fetchAllCollectionItems_def pageLimit_def)
qed

subsection \<open>Refreshing the cache\<close>





subsection \<open>Stripping code fences\<close>

lemma not_white_backtick [simp]: "\<not> isWhite (CHR 0x60)"
  by (simp add: isWhite_def)

lemma last_dropWhile: "dropWhile P xs \<noteq> [] \<Longrightarrow> last (dropWhile P xs) = last xs"
  by (induction xs) (auto split: if_splits)

lemma trim_id:
  assumes "s \<noteq> []" and "\<not> isWhite (hd s)" and "\<not> isWhite (last s)"
  shows "trim s = s"
proof -
  from assms(1,2) have d: "dropWhile isWhite s = s"
    by (cases s) simp_all
  from assms(1,3) have "dropWhile isWhite (rev s) = rev s"
    by (cases "rev s") (simp_all add: hd_rev)
  with d show ?thesis
    by (simp add: trim_def)
qed

lemma trim_ends:
  assumes "trim s \<noteq> []"
  shows "\<not> isWhite (hd (trim s))" and "\<not> isWhite (last (trim s))"
proof -
  let ?d = "dropWhile isWhite s"
  let ?e = "dropWhile isWhite (rev ?d)"
  from assms have e: "?e \<noteq> []"
    by (simp add: trim_def)
  have d: "?d \<noteq> []"
  proof
    assume "?d = []"
    then have "rev ?d = []" by (simp only: rev.simps)
    then have "?e = []" by (simp only: dropWhile.simps)
    with e show False ..
  qed
  have "hd (trim s) = last ?e"
    using e by (simp add: trim_def hd_rev)
  also have "\<dots> = last (rev ?d)"
    using e by (rule last_dropWhile)
  also have "\<dots> = hd ?d"
    using d by (simp add: last_rev)
  finally have "hd (trim s) = hd ?d" .
  with d show "\<not> isWhite (hd (trim s))"
    by (simp add: hd_dropWhile)
  have "last (trim s) = hd ?e"
    using e by (simp add: trim_def last_rev)
  with e show "\<not> isWhite (last (trim s))"
    by (simp add: hd_dropWhile)
qed

lemma trim_trim [simp]: "trim (trim s) = trim s"
proof (cases "trim s = []")
  case True
  have "trim [] = []"
    by (simp add: trim_def)
  with True show ?thesis by simp
next
  case False
  then show ?thesis
    by (intro trim_id trim_ends)
qed

lemma trim_keeps_prefix:
  assumes "prefix p t" and "p \<noteq> []" and "\<not> isWhite (hd p)" and "\<not> isWhite (last p)"
  shows "prefix p (trim t)"
proof -
  from assms(1) obtain r where t: "t = p @ r"
    by (auto simp: prefix_def)
  from assms(2,3) have d: "dropWhile isWhite t = t"
    by (cases p) (simp_all add: t)
  have "\<exists>x. dropWhile isWhite (rev r @ rev p) = x @ rev p"
  proof (cases "\<forall>c \<in> set (rev r). isWhite c")
    case True
    then have "dropWhile isWhite (rev r @ rev p) = dropWhile isWhite (rev p)"
      by (intro dropWhile_append2) auto
    also have "\<dots> = rev p"
      using assms(2,4) by (cases "rev p") (simp_all add: hd_rev)
    finally show ?thesis by simp
  next
    case False
    then obtain c where "c \<in> set (rev r)" "\<not> isWhite c"
      by blast
    then have "dropWhile isWhite (rev r @ rev p) = dropWhile isWhite (rev r) @ rev p"
      by (rule dropWhile_append1)
    then show ?thesis by blast
  qed
  then obtain x where "dropWhile isWhite (rev r @ rev p) = x @ rev p"
    by blast
  with d show ?thesis
    by (simp add: trim_def t)
qed


lemma short_of_fence:
  assumes "prefix ''```'' (t @ ''```'')" and "\<not> prefix ''```'' t"
  shows "t = [] \<or> t = ''`'' \<or> t = ''``''"
proof (cases t)
  case Nil
  then show ?thesis by simp
next
  case (Cons a t1)
  note t = this
  show ?thesis
  proof (cases t1)
    case Nil
    with t assms show ?thesis by auto
  next
    case (Cons b t2)
    note t1 = this
    show ?thesis
    proof (cases t2)
      case Nil
      with t t1 assms show ?thesis by auto
    next
      case (Cons c t3)
      with t t1 assms show ?thesis by auto
    qed
  qed
qed

lemma json_not_in_fence:
  assumes "\<not> prefix ''json'' t"
  shows "\<not> prefix ''json'' (t @ ''```'')"
proof (cases t)
  case Nil
  then show ?thesis by simp
next
  case (Cons a t1)
  note t = this
  show ?thesis
  proof (cases t1)
    case Nil
    with t assms show ?thesis by simp
  next
    case (Cons b t2)
    note t1 = this
    show ?thesis
    proof (cases t2)
      case Nil
      with t t1 assms show ?thesis by simp
    next
      case (Cons c t3)
      note t2 = this
      show ?thesis
      proof (cases t3)
        case Nil
        with t t1 t2 assms show ?thesis by simp
      next
        case (Cons d t4)
        with t t1 t2 assms show ?thesis by simp
      qed
    qed
  qed
qed

lemma trim_fenced [simp]: "trim (fenced (CHR 0x60 # opening) t) = fenced (CHR 0x60 # opening) t"
  by (rule trim_id) (simp_all add: fenced_def)

lemma sliceDropEnd_append [simp]: "length e = n \<Longrightarrow> sliceDropEnd n (t @ e) = t"
  by (simp add: sliceDropEnd_def)

lemma strip_json_fenced_short:
  "stripFences (fenced ''```json'' []) = []"
  "stripFences (fenced ''```json'' ''`'') = ''`''"
  "stripFences (fenced ''```json'' ''``'') = ''``''"
  by code_simp+

lemma endsWith_fence [simp]: "endsWith (t @ ''```'') ''```''"
  by (simp add: endsWith_def suffix_def)

lemma strip_json_fenced:
  assumes "\<not> startsWith (trim t) ''```''"
  shows "stripFences (fenced ''```json'' t) = t"
proof -
  have nofence: "\<not> prefix ''```'' t"
  proof
    assume "prefix ''```'' t"
    then have "prefix ''```'' (trim t)"
      by (rule trim_keeps_prefix) simp_all
    with assms show False
      by (simp add: startsWith_def)
  qed
  have c1: "drop 7 (fenced ''```json'' t) = t @ ''```''"
    by (simp add: fenced_def)
  have st: "startsWith (fenced ''```json'' t) ''```json''"
    by (simp add: fenced_def startsWith_def)
  show ?thesis
  proof (cases "prefix ''```'' (t @ ''```'')")
    case True
    with nofence have "t = [] \<or> t = ''`'' \<or> t = ''``''"
      by (rule short_of_fence [rotated])
    then show ?thesis
      by (elim disjE) (simp_all only: strip_json_fenced_short)
  next
    case False
    then have ns: "\<not> startsWith (t @ ''```'') ''```''"
      by (simp add: startsWith_def)
    show ?thesis
      by (simp add: stripFences_def st c1 ns Let_def)
  qed
qed

lemma strip_bare_fenced:
  assumes "\<not> startsWith t ''json''"
  shows "stripFences (fenced ''```'' t) = t"
proof -
  from assms have "\<not> prefix ''json'' (t @ ''```'')"
    by (intro json_not_in_fence) (simp add: startsWith_def)
  then have nj: "\<not> startsWith (fenced ''```'' t) ''```json''"
    by (simp add: fenced_def startsWith_def)
  have st: "startsWith (fenced ''```'' t) ''```''"
    by (simp add: fenced_def startsWith_def)
  have c2: "drop 3 (fenced ''```'' t) = t @ ''```''"
    by (simp add: fenced_def)
  show ?thesis
    by (simp add: stripFences_def nj st c2 Let_def)
qed

lemma strip_unfenced:
  assumes "\<not> startsWith (trim t) ''```''" and "\<not> endsWith (trim t) ''```''"
  shows "stripFences t = trim t"
proof -
  from assms(1) have "\<not> startsWith (trim t) ''```json''"
    by (auto simp: startsWith_def prefix_def)
  with assms show ?thesis
    by (simp add: stripFences_def Let_def)
qed

text \<open>
  C6, as the code has it. For a text whose trimmed form neither starts nor ends with a
  fence marker of its own, wrapping it as \<^verbatim>\<open>```json\<close> ... \<^verbatim>\<open>```\<close> gives the same
  result of the strip-and-parse step as the text itself, and so does wrapping it as
  \<^verbatim>\<open>```\<close> ... \<^verbatim>\<open>```\<close> when the text does not start with the letters
  \<^verbatim>\<open>json\<close>. The step removes one opening and one closing marker only.
\<close>

theorem fenced_parses_as_unfenced:
  assumes "\<not> startsWith (trim t) ''```''" and "\<not> endsWith (trim t) ''```''"
  shows "stripAndParse (fenced ''```json'' t) = stripAndParse t
         \<and> (\<not> startsWith t ''json'' \<longrightarrow> stripAndParse (fenced ''```'' t) = stripAndParse t)"
  using assms
  by (simp add: stripAndParse_def strip_json_fenced strip_bare_fenced strip_unfenced)

theorem fenced_parses_as_unfenced_witness:
  \<open>stripAndParse (fenced ''```json'' ''{"message":"Hi","hotels":[]}'')
     = Inr (JObj [(''message'', JStr ''Hi''), (''hotels'', JArr [])])
   \<and> stripAndParse (fenced ''```'' ''{"message":"Hi","hotels":[]}'')
     = Inr (JObj [(''message'', JStr ''Hi''), (''hotels'', JArr [])])
   \<and> stripAndParse ''{"message":"Hi","hotels":[]}''
     = Inr (JObj [(''message'', JStr ''Hi''), (''hotels'', JArr [])])\<close>
proof -
  have s: \<open>\<not> startsWith (trim ''{"message":"Hi","hotels":[]}'') ''```''\<close>
    by code_simp
  have e: \<open>\<not> endsWith (trim ''{"message":"Hi","hotels":[]}'') ''```''\<close>
    by code_simp
  have j: \<open>\<not> startsWith ''{"message":"Hi","hotels":[]}'' ''json''\<close>
    by code_simp
  have v: \<open>stripAndParse ''{"message":"Hi","hotels":[]}''
             = Inr (JObj [(''message'', JStr ''Hi''), (''hotels'', JArr [])])\<close>
    by code_simp
  from fenced_parses_as_unfenced [OF s e] j v show ?thesis
    by simp
qed

text \<open>
  C6 as stated fails. The text \<^verbatim>\<open>json[]\<close> wrapped as \<^verbatim>\<open>```\<close> ... \<^verbatim>\<open>```\<close> is
  read as \<^verbatim>\<open>[]\<close> behind a \<^verbatim>\<open>```json\<close> marker and parses, while the text itself
  does not; and a text that carries a fence of its own parses when fenced once and not
  when fenced twice.
\<close>

theorem fenced_text_parses_differently:
  \<open>stripAndParse (fenced ''```'' ''json[]'') = Inr (JArr [])
   \<and> stripAndParse ''json[]'' = Inl SyntaxError
   \<and> stripAndParse ''```json{"message":"Hi"}```'' = Inr (JObj [(''message'', JStr ''Hi'')])
   \<and> stripAndParse (fenced ''```json'' ''```json{"message":"Hi"}```'') = Inl SyntaxError\<close>
  by code_simp

subsection \<open>The chat route: forwarded turns\<close>

lemma forwardTurn_chatTurn [simp]: "forwardTurn (chatTurn t) = Inr (chatTurn t)"
  by (simp add: forwardTurn_def chatTurn_def bindE_def getE_def nullish_def)

lemma mapE_chatTurns [simp]: "mapE forwardTurn (map chatTurn ts) = Inr (map chatTurn ts)"
  by (induction ts) simp_all





text \<open>
  A remark on the legacy variant of the server: its chat handler maps over the whole
  history, without \<^verbatim>\<open>slice(-10)\<close>, so it forwards every turn.
\<close>

lemma legacy_chat_forwards_whole_history:
  "legacyBuildMessages (JArr (map chatTurn hist)) message = Inr (map chatTurn hist @ [userTurn message])"
proof -
  have "mapE legacyForwardTurn (map chatTurn hist) = Inr (map chatTurn hist)"
    by (induction hist)
      (simp_all add: legacyForwardTurn_def chatTurn_def bindE_def getE_def nullish_def)
  then show ?thesis
    by (simp add: legacyBuildMessages_def bindE_def)
qed

subsection \<open>The chat route: parsing the reply\<close>

lemma malformed_reply_outcome:
  assumes "ok status" and "rawResponseOf data = Inr (JStr s)" and "stripAndParse s = Inl SyntaxError"
  shows "completionOutcome c (Response status (Some data)) =
           Reply 200 (JObj
             [(''message'', JStr (if s = [] then ''Let me help you find the perfect hotel in Portugal.''
                                  else take 200 s)),
              (''hotels'', JArr []),
              (''mapAction'', JNull),
              (''usage'', getProp data ''usage'')])"
  using assms
  by (simp add: completionOutcome_def chatResponse_def parseReply_def fallbackReply_def
      hotelCards_def bindE_def getE_def nullish_def jsOr_def)

text \<open>
  C7, as the code has it. Take a chat request that reaches the completion endpoint (the
  credential is configured, the body has a message, the turns and the prompt are built)
  and a successful completion whose text \<open>s\<close> is a string. When the stripped text is
  not JSON, the handler answers 200 with the first 200 characters of \<open>s\<close> as message,
  or with a fixed sentence when \<open>s\<close> is empty, an empty hotel list and \<^verbatim>\<open>null\<close> as
  map action.
\<close>

theorem malformed_reply_falls_back:
  assumes key: "configured (ANTHROPIC_API_KEY e)"
    and body: "\<not> nullish body" "truthy (getProp body ''message'')"
    and cache: "(if stale now c then refreshCMSCache net e later c log else Some (c, log, None))
                  = Some (c1, log1, err)"
    and built: "buildMessages (case getProp body ''history'' of JUndefined \<Rightarrow> JArr [] | history \<Rightarrow> history)
                  (getProp body ''message'') = Inr messages"
    and prompt: "buildSystemPrompt c1 = Inr system"
    and answer: "net (length log1) (MessagesReq (jsToString (envVal (ANTHROPIC_API_KEY e))) system messages)
                   = Response status (Some data)"
    and ok: "ok status"
    and raw: "rawResponseOf data = Inr (JStr s)"
    and bad: "stripAndParse s = Inl SyntaxError"
  shows "apiChat net e now later c log body =
           Some (Reply 200 (JObj
                   [(''message'', JStr (if s = [] then ''Let me help you find the perfect hotel in Portugal.''
                                        else take 200 s)),
                    (''hotels'', JArr []),
                    (''mapAction'', JNull),
                    (''usage'', getProp data ''usage'')]),
                 c1,
                 log1 @ [MessagesReq (jsToString (envVal (ANTHROPIC_API_KEY e))) system messages])"
proof -
  from key have k: "truthy (envVal (ANTHROPIC_API_KEY e))"
    by (simp add: configured_def)
  show ?thesis
    unfolding apiChat_def
    using k body cache
    by (simp add: built prompt answer bindE_def malformed_reply_outcome [OF ok raw bad]
        del: jsToString.simps)
qed

theorem malformed_reply_falls_back_witness:
  "apiChat (completionNet (replicate 250 CHR ''x'')) sampleEnv 2000 3000 memmoCache []
       (JObj [(''message'', JStr ''Hi'')]) =
     Some (Reply 200 (JObj
             [(''message'', JStr (replicate 200 CHR ''x'')),
              (''hotels'', JArr []),
              (''mapAction'', JNull),
              (''usage'', JObj [(''input_tokens'', JNum (Dec 12 0)), (''output_tokens'', JNum (Dec 34 0))])]),
           memmoCache,
           [MessagesReq ''sk-key'' (1, ''- Memmo Alfama | region: Lisbon | slug: memmo-alfama'')
              [userTurn (JStr ''Hi'')]])"
proof -
  have key: "configured (ANTHROPIC_API_KEY sampleEnv)"
    by code_simp
  have body: "\<not> nullish (JObj [(''message'', JStr ''Hi'')])"
    "truthy (getProp (JObj [(''message'', JStr ''Hi'')]) ''message'')"
    by (simp_all add: nullish_def)
  have fresh: "(if stale 2000 memmoCache
                then refreshCMSCache (completionNet (replicate 250 CHR ''x'')) sampleEnv 3000 memmoCache []
                else Some (memmoCache, [], None)) = Some (memmoCache, [], None)"
    by (simp add: stale_def memmoCache_def CACHE_DURATION_def)
  have built: "buildMessages
       (case getProp (JObj [(''message'', JStr ''Hi'')]) ''history'' of
          JUndefined \<Rightarrow> JArr [] | history \<Rightarrow> history)
       (getProp (JObj [(''message'', JStr ''Hi'')]) ''message'') = Inr [userTurn (JStr ''Hi'')]"
    by code_simp
  have prompt: "buildSystemPrompt memmoCache
                  = Inr (1, ''- Memmo Alfama | region: Lisbon | slug: memmo-alfama'')"
    by code_simp
  have key_text: "jsToString (envVal (ANTHROPIC_API_KEY sampleEnv)) = ''sk-key''"
    by code_simp
  have answer: "completionNet (replicate 250 CHR ''x'') (length ([] :: request list))
       (MessagesReq (jsToString (envVal (ANTHROPIC_API_KEY sampleEnv)))
          (1, ''- Memmo Alfama | region: Lisbon | slug: memmo-alfama'') [userTurn (JStr ''Hi'')])
       = Response 200 (Some (completionBody (replicate 250 CHR ''x'')))"
    by (simp add: completionNet_def)
  have raw: "rawResponseOf (completionBody (replicate 250 CHR ''x'')) = Inr (JStr (replicate 250 CHR ''x''))"
    by (simp add: rawResponseOf_def completionBody_def bindE_def getE_def nullish_def firstElement_def
        optProp_def jsOr_def)
  have bad: "stripAndParse (replicate 250 CHR ''x'') = Inl SyntaxError"
    by code_simp
  have usage: "getProp (completionBody (replicate 250 CHR ''x'')) ''usage'' =
      JObj [(''input_tokens'', JNum (Dec 12 0)), (''output_tokens'', JNum (Dec 34 0))]"
    by (simp add: completionBody_def)
  from malformed_reply_falls_back [OF key body fresh built prompt answer ok_200 raw bad] usage key_text
  show ?thesis
    by simp
qed

text \<open>
  C7 as stated fails on an empty completion text: the message of the degraded reply is
  the fixed sentence, not the (empty) first 200 characters of the raw text.
\<close>

theorem empty_reply_falls_back_to_fixed_sentence:
  "rawResponseOf (completionBody []) = Inr (JStr [])
   \<and> stripAndParse [] = Inl SyntaxError
   \<and> take 200 ([] :: string) = []
   \<and> apiChat (completionNet []) sampleEnv 2000 3000 memmoCache [] (JObj [(''message'', JStr ''Hi'')]) =
       Some (Reply 200 (JObj
               [(''message'', JStr ''Let me help you find the perfect hotel in Portugal.''),
                (''hotels'', JArr []),
                (''mapAction'', JNull),
                (''usage'', JObj [(''input_tokens'', JNum (Dec 12 0)),
                                  (''output_tokens'', JNum (Dec 34 0))])]),
             memmoCache,
             [MessagesReq ''sk-key'' (1, ''- Memmo Alfama | region: Lisbon | slug: memmo-alfama'')
                [userTurn (JStr ''Hi'')]])"
  by code_simp

subsection \<open>The chat route: resolving slugs\<close>






end
